theory Spec2Isabelle
  imports Main "HOL-Library.Finite_Map"
begin

section \<open>Python values\<close>

text \<open>
  A Python \<open>str\<close> is modelled by the \<^typ>\<open>string\<close> of its UTF-8 bytes, so that the
  Persian literals of the source can be written down. The values that \<open>json.loads\<close>
  produces, and that the language model therefore can hand to a tool, are the
  constructors of \<open>json\<close>; a JSON object carries the items of the Python dict.
\<close>

datatype json =
    JNull
  | JBool bool
  | JInt int
  | JFloat rat
  | JString string
  | JArray "json list"
  | JObject "(string \<times> json) list"

text \<open>Truth value testing, as \<open>all([...])\<close> and \<open>if not x\<close> apply it.\<close>

fun truthy :: "json \<Rightarrow> bool" where
  "truthy JNull = False"
| "truthy (JBool b) = b"
| "truthy (JInt n) = (n \<noteq> 0)"
| "truthy (JFloat f) = (f \<noteq> 0)"
| "truthy (JString s) = (s \<noteq> [])"
| "truthy (JArray xs) = (xs \<noteq> [])"
| "truthy (JObject kvs) = (kvs \<noteq> [])"

text \<open>Lists and dicts are unhashable: using one as a dict key raises \<open>TypeError\<close>.\<close>

fun hashable :: "json \<Rightarrow> bool" where
  "hashable (JArray xs) = False"
| "hashable (JObject kvs) = False"
| "hashable v = True"

datatype py_exn =
    TypeError
  | IndexError
  | JSONDecodeError
  | RecursionError
  | ValueError
  | LibraryError string

text \<open>A call either returns a value or raises; the state it leaves is kept beside it.\<close>

datatype 'a outcome = Return 'a | Raise py_exn

subsection \<open>Strings\<close>

text \<open>
  \<open>str.lower\<close> and \<open>str.upper\<close> are library functions whose result follows the
  Unicode case mappings (\<open>KELVIN SIGN\<close> is lowered to \<open>k\<close>, sharp s is raised to
  \<open>SS\<close>). They are not part of the repository and are taken as parameters.
\<close>

record str_methods =
  str_lower :: "string \<Rightarrow> string"
  str_upper :: "string \<Rightarrow> string"

text \<open>
  \<open>s[:n]\<close> counts code points. In UTF-8 a code point is one lead byte followed by its
  continuation bytes (\<open>0x80\<close> to \<open>0xBF\<close>), so the prefix of \<open>n\<close> code points ends
  just before lead byte number \<open>n + 1\<close>.
\<close>

definition continuation_byte :: "char \<Rightarrow> bool" where
  "continuation_byte c = (let n = (of_char c :: nat) in 128 \<le> n \<and> n < 192)"

fun str_prefix :: "nat \<Rightarrow> string \<Rightarrow> string" where
  "str_prefix n [] = []"
| "str_prefix n (c # cs) =
     (if continuation_byte c then c # str_prefix n cs
      else (case n of 0 \<Rightarrow> [] | Suc m \<Rightarrow> c # str_prefix m cs))"

subsection \<open>Numbers\<close>

text \<open>
  A price is a Python \<open>int\<close> or a Python \<open>float\<close>. A float is modelled by the exact
  rational value of the IEEE 754 double; every float operation computes the
  exact result and rounds it to the nearest double, ties to even
  (\<open>round_double\<close>). Overflow and subnormal numbers are outside the model: the
  amounts of this program are far from both.
\<close>

datatype pynum = PyInt int | PyFloat rat

function ilog2 :: "nat \<Rightarrow> nat" where
  "ilog2 n = (if n < 2 then 0 else Suc (ilog2 (n div 2)))"
  by pat_completeness auto
termination
  by (relation "measure id") auto

declare ilog2.simps [simp del]

definition pow2 :: "int \<Rightarrow> rat" where
  "pow2 k = (if 0 \<le> k then 2 ^ nat k else 1 / 2 ^ nat (- k))"

text \<open>The exponent \<open>e\<close> with \<open>2^e \<le> |x| < 2^(e+1)\<close>, for \<open>x \<noteq> 0\<close>.\<close>

definition float_exponent :: "rat \<Rightarrow> int" where
  "float_exponent x =
     (if 1 \<le> \<bar>x\<bar> then int (ilog2 (nat \<lfloor>\<bar>x\<bar>\<rfloor>))
      else - (int (ilog2 (nat \<lceil>1 / \<bar>x\<bar>\<rceil> - 1)) + 1))"

definition round_half_even :: "rat \<Rightarrow> int" where
  "round_half_even x =
     (let f = \<lfloor>x\<rfloor>; d = x - of_int f
      in if d < 1 / 2 then f
         else if 1 / 2 < d then f + 1
         else if even f then f else f + 1)"

text \<open>A double has 53 significant bits: the spacing at exponent \<open>e\<close> is \<open>2^(e-52)\<close>.\<close>

definition round_double :: "rat \<Rightarrow> rat" where
  "round_double x =
     (if x = 0 then 0
      else let ulp = pow2 (float_exponent x - 52)
           in of_int (round_half_even (x / ulp)) * ulp)"

text \<open>\<open>float(n)\<close>, the conversion that arithmetic applies to an int operand.\<close>

fun to_float :: "pynum \<Rightarrow> rat" where
  "to_float (PyInt n) = round_double (of_int n)"
| "to_float (PyFloat f) = f"

text \<open>\<open>x * c\<close> for a float literal \<open>c\<close> written as the decimal \<open>d\<close>.\<close>

definition mul_float :: "pynum \<Rightarrow> rat \<Rightarrow> rat" where
  "mul_float x d = round_double (to_float x * round_double d)"

text \<open>\<open>int(f)\<close> truncates towards zero.\<close>

definition py_int :: "rat \<Rightarrow> int" where
  "py_int f = (if 0 \<le> f then \<lfloor>f\<rfloor> else \<lceil>f\<rceil>)"

text \<open>\<open>x - n\<close> for an int \<open>n\<close>: exact on ints, a float subtraction otherwise.\<close>

fun sub_int :: "pynum \<Rightarrow> int \<Rightarrow> pynum" where
  "sub_int (PyInt m) n = PyInt (m - n)"
| "sub_int (PyFloat f) n = PyFloat (round_double (f - round_double (of_int n)))"

text \<open>The number a price stands for.\<close>

fun num_val :: "pynum \<Rightarrow> rat" where
  "num_val (PyInt n) = of_int n"
| "num_val (PyFloat f) = f"

section \<open>The ticket store (\<open>tools.py\<close>)\<close>

text \<open>
  A ticket is the dict \<open>ticket_data\<close> of \<open>book_ticket\<close>; the key
  \<open>cancellation_date\<close> is absent until the ticket is cancelled. The request fields
  are stored as they were passed in.
\<close>

record ticket =
  ticket_id :: string
  origin :: json
  destination :: json
  travel_date :: json
  departure_time :: string
  passenger_name :: json
  national_id :: json
  price_irr :: pynum
  status :: string
  booking_date :: string
  cancellation_date :: "string option"

text \<open>\<open>TICKET_DB\<close>, the module-level dict from ticket id to ticket.\<close>

type_synonym ticket_db = "(string, ticket) fmap"

text \<open>
  The \<open>message\<close> of a result. Each constructor stands for one message template of
  the source and carries the values the template interpolates:
  \<^item> \<open>MissingBookingInfo\<close>: "Missing required booking information. Please provide ..."
  \<^item> \<open>TicketBooked\<close>: "... (Ticket successfully booked)."
  \<^item> \<open>BookingInternalError\<close>: "An internal error occurred during booking: \{str(e)\}"
  \<^item> \<open>TicketNotFound i\<close>: "Ticket ID '\{ticket_id\}' not found. Please check the ID."
  \<^item> \<open>AlreadyCancelled i\<close>: "Ticket ID '\{ticket_id\}' is already cancelled."
  \<^item> \<open>TicketCancelled i r p\<close>: "Ticket \{ticket_id\} has been successfully cancelled. A
    refund of \{refund_amount:,\} IRR (70% of price) will be processed. Penalty applied:
    \{penalty_amount:,\} IRR."
  \<^item> \<open>InfoRetrieved\<close>: "Ticket information retrieved."
  \<^item> \<open>PolicyUnavailable\<close>: "Policy knowledge base is not available."
  \<^item> \<open>PolicyRetrieved\<close>: "Policy information retrieved from Safar Travel knowledge base."
  \<^item> \<open>PolicyNoMatch\<close>: "No direct match in the policy knowledge base."
  \<^item> \<open>DestinationsGenerated\<close>: "Destination suggestions generated by LLM reasoning. ..."
  \<^item> \<open>DestinationsFailed e\<close>: "Failed to generate destination recommendations using LLM
    reasoning: \{str(e)\}"
  \<^item> \<open>UnknownFunction f\<close>: "Unknown function: \{function_name\}"
  \<^item> \<open>JSONDecodeFailed f\<close>: "Error decoding JSON arguments for \{function_name\}"
\<close>

datatype message =
    MissingBookingInfo
  | TicketBooked
  | BookingInternalError
  | TicketNotFound json
  | AlreadyCancelled json
  | TicketCancelled json int pynum
  | InfoRetrieved
  | PolicyUnavailable
  | PolicyRetrieved
  | PolicyNoMatch
  | DestinationsGenerated
  | DestinationsFailed string
  | UnknownFunction string
  | JSONDecodeFailed string

text \<open>
  The dict a tool returns. \<open>res_status\<close> and \<open>res_message\<close> are its keys \<open>status\<close> and
  \<open>message\<close>, \<open>res_ticket_id\<close> its key \<open>ticket_id\<close>; a key the dict does not have is
  \<open>None\<close>.
\<close>

record tool_result =
  res_status :: string
  res_message :: message
  details :: "ticket option"
  res_ticket_id :: "json option"
  refund_amount_irr :: "int option"
  relevant_policy :: "string option"
  data :: "json option"

definition result :: "string \<Rightarrow> message \<Rightarrow> tool_result" where
  "result st m =
     \<lparr>res_status = st, res_message = m, details = None, res_ticket_id = None,
      refund_amount_irr = None, relevant_policy = None, data = None\<rparr>"

subsection \<open>\<open>TicketManagementTool\<close>\<close>

text \<open>
  \<open>_generate_ticket_id\<close>; \<open>hex\<close> is \<open>uuid.uuid4().hex\<close>, drawn by the caller.
\<close>

definition generate_ticket_id ::
  "str_methods \<Rightarrow> string \<Rightarrow> string \<Rightarrow> string \<Rightarrow> string" where
  "generate_ticket_id sm hex origin_city destination_city =
     (let prefix = str_upper sm (str_prefix 2 origin_city) @
                   str_upper sm (str_prefix 2 destination_city)
      in ''SF-'' @ prefix @ ''-'' @ str_upper sm (take 6 hex))"

definition travel_times :: "string list" where
  "travel_times = [''08:00'', ''14:30'', ''20:00'']"

text \<open>
  \<open>book_ticket\<close>. \<open>hex\<close> is the uuid drawn and \<open>now\<close> the formatted clock reading of
  this call. Inside the \<open>try\<close>, \<open>destination_city.lower()\<close> and
  \<open>origin_city[:2].upper()\<close> raise on anything but a \<open>str\<close>; the \<open>except\<close> turns that
  into an error result, and nothing has been stored by then.
\<close>

definition book_ticket ::
  "str_methods \<Rightarrow> string \<Rightarrow> string \<Rightarrow> json \<Rightarrow> json \<Rightarrow> json \<Rightarrow> json \<Rightarrow> json \<Rightarrow> ticket_db
    \<Rightarrow> tool_result \<times> ticket_db" where
  "book_ticket sm hex now origin_city destination_city travel_date_arg passenger national db =
     (if \<not> list_all truthy [origin_city, destination_city, travel_date_arg, passenger, national]
      then (result ''error'' MissingBookingInfo, db)
      else (case (destination_city, origin_city) of
          (JString d, JString orig) \<Rightarrow>
            (let base_price =
                   (if str_lower sm d \<in> set [''kish'', ''qeshm'']
                    then PyFloat (mul_float (PyInt 1500000) (15 / 10))
                    else PyInt 1500000);
                 tid = generate_ticket_id sm hex orig d;
                 ticket_data =
                   \<lparr>ticket_id = tid,
                    origin = origin_city,
                    destination = destination_city,
                    travel_date = travel_date_arg,
                    departure_time = travel_times ! (fcard (fmdom db) mod 3),
                    passenger_name = passenger,
                    national_id = national,
                    price_irr = base_price,
                    status = ''CONFIRMED'',
                    booking_date = now,
                    cancellation_date = None\<rparr>
             in ((result ''success'' TicketBooked)\<lparr>details := Some ticket_data\<rparr>,
                 fmupd tid ticket_data db))
        | _ \<Rightarrow> (result ''error'' BookingInternalError, db)))"

text \<open>
  \<open>TICKET_DB.get(ticket_id)\<close> and \<open>TICKET_DB[ticket_id] = ticket\<close> for a hashable
  key. The keys of the dict are the strings \<open>book_ticket\<close> generated, so any other
  key finds nothing; \<open>cancel_ticket\<close> assigns only under a key that \<open>get\<close> has found.
\<close>

fun db_get :: "ticket_db \<Rightarrow> json \<Rightarrow> ticket option" where
  "db_get db (JString k) = fmlookup db k"
| "db_get db v = None"

fun db_set :: "ticket_db \<Rightarrow> json \<Rightarrow> ticket \<Rightarrow> ticket_db" where
  "db_set db (JString k) t = fmupd k t db"
| "db_set db v t = db"

text \<open>\<open>cancel_ticket\<close>; \<open>now\<close> is the formatted clock reading of this call.\<close>

definition cancel_ticket ::
  "string \<Rightarrow> json \<Rightarrow> ticket_db \<Rightarrow> tool_result outcome \<times> ticket_db" where
  "cancel_ticket now tid db =
     (if \<not> hashable tid then (Raise TypeError, db)
      else (case db_get db tid of
          None \<Rightarrow> (Return (result ''error'' (TicketNotFound tid)), db)
        | Some t \<Rightarrow>
            if status t = ''CANCELLED''
            then (Return (result ''info'' (AlreadyCancelled tid)), db)
            else
              (let refund_amount = py_int (mul_float (price_irr t) (70 / 100));
                   penalty_amount = sub_int (price_irr t) refund_amount;
                   t' = t\<lparr>status := ''CANCELLED'', cancellation_date := Some now\<rparr>
               in (Return ((result ''success'' (TicketCancelled tid refund_amount penalty_amount))
                             \<lparr>res_ticket_id := Some tid,
                              refund_amount_irr := Some refund_amount\<rparr>),
                   db_set db tid t'))))"

text \<open>\<open>get_ticket_info\<close> reads the store and leaves it as it is.\<close>

definition get_ticket_info :: "json \<Rightarrow> ticket_db \<Rightarrow> tool_result outcome" where
  "get_ticket_info tid db =
     (if \<not> hashable tid then Raise TypeError
      else (case db_get db tid of
          None \<Rightarrow> Return (result ''error'' (TicketNotFound tid))
        | Some t \<Rightarrow> Return ((result ''success'' InfoRetrieved)\<lparr>details := Some t\<rparr>)))"

subsection \<open>\<open>RAGTool\<close> and \<open>DestinationTool\<close>\<close>

text \<open>
  \<open>lookup_policy\<close>. \<open>count\<close> is \<open>self.collection.count()\<close>. \<open>query\<close> is the vector
  search of the library: it raises, or returns the \<open>documents\<close> entry of its result,
  one list of texts per query text (\<open>[]\<close> when the entry is missing or empty).
  The call is not inside a \<open>try\<close>.
\<close>

definition lookup_policy ::
  "nat \<Rightarrow> (json \<Rightarrow> py_exn + string list list) \<Rightarrow> json \<Rightarrow> tool_result outcome" where
  "lookup_policy count query q =
     (if count = 0 then Return (result ''error'' PolicyUnavailable)
      else (case query q of
          Inl e \<Rightarrow> Raise e
        | Inr documents \<Rightarrow>
            (case documents of
               (relevant_text # ds) # rest \<Rightarrow>
                 Return ((result ''success'' PolicyRetrieved)
                           \<lparr>relevant_policy := Some relevant_text\<rparr>)
             | _ \<Rightarrow> Return (result ''info'' PolicyNoMatch))))"

text \<open>
  \<open>search_destinations\<close>. Its whole body after the prompt is one \<open>try\<close>:
  \<open>completion\<close> stands for the completion call together with \<open>json.loads\<close> of the
  answer, and yields \<open>str(e)\<close> of whatever was raised, or the parsed data.
\<close>

definition search_destinations :: "(json \<Rightarrow> string + json) \<Rightarrow> json \<Rightarrow> tool_result" where
  "search_destinations completion user_preferences =
     (case completion user_preferences of
        Inl e \<Rightarrow> result ''error'' (DestinationsFailed e)
      | Inr recommendations_data \<Rightarrow>
          (result ''success'' DestinationsGenerated)\<lparr>data := Some recommendations_data\<rparr>)"

subsection \<open>\<open>SafarTools\<close>\<close>

datatype tool = BookTicket | CancelTicket | GetTicketInfo | LookupPolicy | SearchDestinations

text \<open>\<open>f.__name__\<close> of a callable, and the parameters its \<open>def\<close> declares (none has a default).\<close>

fun tool_name :: "tool \<Rightarrow> string" where
  "tool_name BookTicket = ''book_ticket''"
| "tool_name CancelTicket = ''cancel_ticket''"
| "tool_name GetTicketInfo = ''get_ticket_info''"
| "tool_name LookupPolicy = ''lookup_policy''"
| "tool_name SearchDestinations = ''search_destinations''"

fun tool_params :: "tool \<Rightarrow> string list" where
  "tool_params BookTicket =
     [''origin_city'', ''destination_city'', ''travel_date'', ''passenger_name'', ''national_id'']"
| "tool_params CancelTicket = [''ticket_id'']"
| "tool_params GetTicketInfo = [''ticket_id'']"
| "tool_params LookupPolicy = [''query'']"
| "tool_params SearchDestinations = [''user_preferences'']"

definition get_tool_callables :: "tool list" where
  "get_tool_callables = [BookTicket, CancelTicket, GetTicketInfo, LookupPolicy, SearchDestinations]"

section \<open>The orchestrator (\<open>manager.py\<close>)\<close>

text \<open>
  A tool call as \<open>tool_call.model_dump()\<close> gives it: \<open>call_id\<close> is \<open>id\<close>, \<open>fn_name\<close> and
  \<open>fn_arguments\<close> are \<open>function.name\<close> and \<open>function.arguments\<close>.
\<close>

record tool_call =
  call_id :: string
  fn_name :: string
  fn_arguments :: string

text \<open>The message \<open>response.choices[0].message\<close> of a completion.\<close>

record model_response =
  content :: "string option"
  tool_calls :: "tool_call list option"

text \<open>
  An entry of \<open>self.history\<close>. \<open>AssistantToolCalls r\<close> is \<open>r.model_dump()\<close>;
  \<open>ToolMsg i n r\<close> is the dict with \<open>tool_call_id\<close> \<open>i\<close>, role \<open>tool\<close>, name \<open>n\<close> and as
  content the serialisation \<open>json.dumps(r)\<close> of the tool result \<open>r\<close>.
\<close>

datatype msg =
    SystemMsg string
  | UserMsg string
  | AssistantMsg string
  | AssistantToolCalls model_response
  | ToolMsg string string tool_result

text \<open>
  Everything outside the repository that a turn consults:
  \<^item> \<open>chat_completion i\<close>: the outcome of completion call number \<open>i\<close> of the turn (from
    \<open>0\<close>), either \<open>str(e)\<close> of the exception raised or the message received. The
    environment is arbitrary, and so is the way the outcome depends on the
    messages sent.
  \<^item> \<open>json_loads\<close>: \<open>json.loads\<close>, which returns a value or raises: \<open>JSONDecodeError\<close>
    where the text is malformed, but also \<open>RecursionError\<close> on deep nesting and
    \<open>ValueError\<close> on an integer literal beyond the digit limit. A \<open>JObject\<close> it
    returns lists each key of the dict once.
  \<^item> \<open>py_str\<close>: the string methods \<open>str.lower\<close> and \<open>str.upper\<close>.
  \<^item> \<open>uuid4_hex n\<close>, \<open>strftime_now n\<close>, \<open>collection_query n\<close>,
    \<open>destination_completion n\<close>: what \<open>uuid.uuid4().hex\<close>, the formatted
    \<open>datetime.now()\<close>, the vector search and the destination completion give to tool
    call number \<open>n\<close> of the process.
  \<^item> \<open>collection_count\<close>: the number of policy documents loaded at start-up.
\<close>

record env =
  chat_completion :: "nat \<Rightarrow> string + model_response"
  json_loads :: "string \<Rightarrow> py_exn + json"
  py_str :: str_methods
  uuid4_hex :: "nat \<Rightarrow> string"
  strftime_now :: "nat \<Rightarrow> string"
  collection_count :: nat
  collection_query :: "nat \<Rightarrow> json \<Rightarrow> py_exn + string list list"
  destination_completion :: "nat \<Rightarrow> json \<Rightarrow> string + json"

text \<open>
  The mutable state: the history of the session, the module-level \<open>TICKET_DB\<close>, and
  the number of tool calls made so far.
\<close>

record agent_state =
  history :: "msg list"
  TICKET_DB :: ticket_db
  tick :: nat

subsection \<open>\<open>_execute_tool_call\<close>\<close>

text \<open>
  The \<open>try\<close> around \<open>json.loads\<close> has the single handler
  \<open>except json.JSONDecodeError\<close>: any other exception of \<open>json.loads\<close> leaves
  \<open>_execute_tool_call\<close>, and so does every exception of the call of the tool.
\<close>

text \<open>
  The call of \<open>function_to_call\<close> with \<open>**function_args\<close> binds the items of the
  dict to the declared parameters. A value that is not a dict, a missing parameter
  and an unexpected key all raise \<open>TypeError\<close> before the body of the tool runs.
  \<open>apply_tool\<close> then runs the tool on the bound values, in the order of its
  parameters; its last equation is never reached, since \<open>bind_kwargs\<close> yields one
  value for each parameter.
\<close>

definition bind_kwargs :: "string list \<Rightarrow> json \<Rightarrow> json list option" where
  "bind_kwargs params function_args =
     (case function_args of
        JObject kvs \<Rightarrow>
          if list_all (\<lambda>k. k \<in> set params) (map fst kvs)
          then those (map (map_of kvs) params)
          else None
      | _ \<Rightarrow> None)"

fun apply_tool ::
  "env \<Rightarrow> tool \<Rightarrow> json list \<Rightarrow> agent_state \<Rightarrow> tool_result outcome \<times> agent_state" where
  "apply_tool env BookTicket [a, b, c, d, e] s =
     (let (r, db) = book_ticket (py_str env) (uuid4_hex env (tick s))
                      (strftime_now env (tick s)) a b c d e (TICKET_DB s)
      in (Return r, s\<lparr>TICKET_DB := db, tick := Suc (tick s)\<rparr>))"
| "apply_tool env CancelTicket [t] s =
     (let (r, db) = cancel_ticket (strftime_now env (tick s)) t (TICKET_DB s)
      in (r, s\<lparr>TICKET_DB := db, tick := Suc (tick s)\<rparr>))"
| "apply_tool env GetTicketInfo [t] s =
     (get_ticket_info t (TICKET_DB s), s\<lparr>tick := Suc (tick s)\<rparr>)"
| "apply_tool env LookupPolicy [q] s =
     (lookup_policy (collection_count env) (collection_query env (tick s)) q,
      s\<lparr>tick := Suc (tick s)\<rparr>)"
| "apply_tool env SearchDestinations [p] s =
     (Return (search_destinations (destination_completion env (tick s)) p),
      s\<lparr>tick := Suc (tick s)\<rparr>)"
| "apply_tool env f vs s = (Raise TypeError, s)"

definition call_tool ::
  "env \<Rightarrow> tool \<Rightarrow> json \<Rightarrow> agent_state \<Rightarrow> tool_result outcome \<times> agent_state" where
  "call_tool env f function_args s =
     (case bind_kwargs (tool_params f) function_args of
        None \<Rightarrow> (Raise TypeError, s)
      | Some vs \<Rightarrow> apply_tool env f vs s)"

definition func_map :: "string \<Rightarrow> tool option" where
  "func_map = map_of (map (\<lambda>f. (tool_name f, f)) get_tool_callables)"

definition execute_tool_call ::
  "env \<Rightarrow> tool_call \<Rightarrow> agent_state \<Rightarrow> tool_result outcome \<times> agent_state" where
  "execute_tool_call env tc s =
     (case func_map (fn_name tc) of
        None \<Rightarrow> (Return (result ''error'' (UnknownFunction (fn_name tc))), s)
      | Some function_to_call \<Rightarrow>
          (case json_loads env (fn_arguments tc) of
             Inl e \<Rightarrow>
               if e = JSONDecodeError
               then (Return (result ''error'' (JSONDecodeFailed (fn_name tc))), s)
               else (Raise e, s)
           | Inr function_args \<Rightarrow> call_tool env function_to_call function_args s))"

subsection \<open>\<open>process_message\<close>\<close>

text \<open>The Persian sentences of the two localized messages, as UTF-8.\<close>

definition apology_fa :: string where
  "apology_fa = map char_of
    [0xD9, 0x85, 0xD8, 0xAA, 0xD8, 0xA7, 0xD8, 0xB3, 0xD9, 0x81, 0xD8, 0xA7, 0xD9, 0x86,
     0xD9, 0x87, 0x20, 0xD8, 0xAF, 0xD8, 0xB1, 0x20, 0xD8, 0xAD, 0xD8, 0xA7, 0xD9, 0x84,
     0x20, 0xD8, 0xAD, 0xD8, 0xA7, 0xD8, 0xB6, 0xD8, 0xB1, 0x20, 0xD8, 0xA7, 0xD9, 0x85,
     0xDA, 0xA9, 0xD8, 0xA7, 0xD9, 0x86, 0x20, 0xD8, 0xA8, 0xD8, 0xB1, 0xD9, 0x82, 0xD8,
     0xB1, 0xD8, 0xA7, 0xD8, 0xB1, 0xDB, 0x8C, 0x20, 0xD8, 0xA7, 0xD8, 0xB1, 0xD8, 0xAA,
     0xD8, 0xA8, 0xD8, 0xA7, 0xD8, 0xB7, 0x20, 0xD8, 0xA8, 0xD8, 0xA7, 0x20, 0xD8, 0xB3,
     0xDB, 0x8C, 0xD8, 0xB3, 0xD8, 0xAA, 0xD9, 0x85, 0x20, 0xD9, 0x88, 0xD8, 0xAC, 0xD9,
     0x88, 0xD8, 0xAF, 0x20, 0xD9, 0x86, 0xD8, 0xAF, 0xD8, 0xA7, 0xD8, 0xB1, 0xD8, 0xAF,
     0x2E, 0x20, 0xD9, 0x84, 0xD8, 0xB7, 0xD9, 0x81, 0xD8, 0xA7, 0x20, 0xDA, 0xA9, 0xD9,
     0x85, 0xDB, 0x8C, 0x20, 0xD8, 0xA8, 0xD8, 0xB9, 0xD8, 0xAF, 0x20, 0xD8, 0xAF, 0xD9,
     0x88, 0xD8, 0xA8, 0xD8, 0xA7, 0xD8, 0xB1, 0xD9, 0x87, 0x20, 0xD8, 0xAA, 0xD9, 0x84,
     0xD8, 0xA7, 0xD8, 0xB4, 0x20, 0xDA, 0xA9, 0xD9, 0x86, 0xDB, 0x8C, 0xD8, 0xAF, 0x2E,
     0x20 :: nat]"

definition clarification_fa :: string where
  "clarification_fa = map char_of
    [0xD9, 0x85, 0xD8, 0xAA, 0xD8, 0xA7, 0xD8, 0xB3, 0xD9, 0x81, 0xD8, 0xA7, 0xD9, 0x86,
     0xD9, 0x87, 0x20, 0xD9, 0x86, 0xD8, 0xAA, 0xD9, 0x88, 0xD8, 0xA7, 0xD9, 0x86, 0xD8,
     0xB3, 0xD8, 0xAA, 0xD9, 0x85, 0x20, 0xD8, 0xAF, 0xD8, 0xB1, 0xD8, 0xAE, 0xD9, 0x88,
     0xD8, 0xA7, 0xD8, 0xB3, 0xD8, 0xAA, 0x20, 0xD8, 0xB4, 0xD9, 0x85, 0xD8, 0xA7, 0x20,
     0xD8, 0xB1, 0xD8, 0xA7, 0x20, 0xD9, 0x85, 0xD8, 0xAA, 0xD9, 0x88, 0xD8, 0xAC, 0xD9,
     0x87, 0x20, 0xD8, 0xB4, 0xD9, 0x88, 0xD9, 0x85, 0x2E, 0x20, 0xD8, 0xA2, 0xDB, 0x8C,
     0xD8, 0xA7, 0x20, 0xD9, 0x85, 0xDB, 0x8C, 0xD8, 0xAA, 0xD9, 0x88, 0xD8, 0xA7, 0xD9,
     0x86, 0xDB, 0x8C, 0xD8, 0xAF, 0x20, 0xD9, 0x88, 0xD8, 0xA7, 0xD8, 0xB6, 0xD8, 0xAD,
     0x20, 0xD8, 0xAA, 0xD8, 0xB1, 0x20, 0xD8, 0xAA, 0xD9, 0x88, 0xD8, 0xB6, 0xDB, 0x8C,
     0xD8, 0xAD, 0x20, 0xD8, 0xAF, 0xD9, 0x87, 0xDB, 0x8C, 0xD8, 0xAF, 0xD8, 0x9F, 0x20 :: nat]"

definition error_msg :: "string \<Rightarrow> string" where
  "error_msg e = apology_fa @ ''(An API error occurred: '' @ e @ '')''"

definition fallback_msg :: string where
  "fallback_msg =
     clarification_fa @ ''(I could not understand your request. Can you explain more clearly?)''"

definition max_steps_msg :: string where
  "max_steps_msg =
     ''Sorry, I reached the maximum number of internal steps. Could you please simplify your request?''"

text \<open>
  \<open>self.history.pop()\<close> followed by \<open>return text\<close>: the last entry goes, whatever it
  is. \<open>messages_to_send\<close> is the same list object as \<open>self.history\<close>, so every
  \<open>append\<close> and \<open>extend\<close> on it is one on the history.
\<close>

definition pop_and_return :: "string \<Rightarrow> agent_state \<Rightarrow> string outcome \<times> agent_state" where
  "pop_and_return text s =
     (if history s = [] then (Raise IndexError, s)
      else (Return text, s\<lparr>history := butlast (history s)\<rparr>))"

text \<open>The \<open>content\<close> when it is truthy, and the \<open>tool_calls\<close> (\<open>[]\<close> for \<open>None\<close>).\<close>

definition final_response :: "model_response \<Rightarrow> string option" where
  "final_response r =
     (case content r of Some (c # cs) \<Rightarrow> Some (c # cs) | _ \<Rightarrow> None)"

definition requested_calls :: "model_response \<Rightarrow> tool_call list" where
  "requested_calls r = (case tool_calls r of Some tcs \<Rightarrow> tcs | None \<Rightarrow> [])"

text \<open>
  The inner \<open>for tool_call in model_response.tool_calls\<close>, which collects
  \<open>tool_outputs\<close>. A tool that raises ends it, with the store as the earlier calls left it.
\<close>

fun run_tool_calls ::
  "env \<Rightarrow> tool_call list \<Rightarrow> agent_state \<Rightarrow> msg list outcome \<times> agent_state" where
  "run_tool_calls env [] s = (Return [], s)"
| "run_tool_calls env (tc # tcs) s =
     (case execute_tool_call env tc s of
        (Raise e, s') \<Rightarrow> (Raise e, s')
      | (Return tool_result, s') \<Rightarrow>
          (case run_tool_calls env tcs s' of
             (Raise e, s'') \<Rightarrow> (Raise e, s'')
           | (Return tool_outputs, s'') \<Rightarrow>
               (Return (ToolMsg (call_id tc) (fn_name tc) tool_result # tool_outputs), s'')))"

text \<open>
  The \<open>for _ in range(5)\<close> loop: \<open>tool_loop env i n\<close> runs iterations
  \<open>i, ..., i + n - 1\<close> and then returns the advisory message.
\<close>

fun tool_loop :: "env \<Rightarrow> nat \<Rightarrow> nat \<Rightarrow> agent_state \<Rightarrow> string outcome \<times> agent_state" where
  "tool_loop env i 0 s = (Return max_steps_msg, s)"
| "tool_loop env i (Suc n) s =
     (case chat_completion env i of
        Inl e \<Rightarrow> pop_and_return (error_msg e) s
      | Inr model_response \<Rightarrow>
          (case final_response model_response of
             Some final \<Rightarrow> (Return final, s\<lparr>history := history s @ [AssistantMsg final]\<rparr>)
           | None \<Rightarrow>
               if requested_calls model_response \<noteq> [] then
                 (case run_tool_calls env (requested_calls model_response)
                         (s\<lparr>history := history s @ [AssistantToolCalls model_response]\<rparr>) of
                    (Raise e, s') \<Rightarrow> (Raise e, s')
                  | (Return tool_outputs, s') \<Rightarrow>
                      tool_loop env (Suc i) n (s'\<lparr>history := history s' @ tool_outputs\<rparr>))
               else pop_and_return fallback_msg s))"

definition process_message ::
  "env \<Rightarrow> string \<Rightarrow> agent_state \<Rightarrow> string outcome \<times> agent_state" where
  "process_message env user_message s =
     tool_loop env 0 5 (s\<lparr>history := history s @ [UserMsg user_message]\<rparr>)"

section \<open>Notions used in the statements\<close>

text \<open>The two prices \<open>book_ticket\<close> assigns: the base price and the premium price.\<close>

definition ticket_prices :: "pynum list" where
  "ticket_prices = [PyInt 1500000, PyFloat 2250000]"

text \<open>Every ticket of the store has one of these prices.\<close>

definition booked_prices :: "ticket_db \<Rightarrow> bool" where
  "booked_prices db = (\<forall>k t. fmlookup db k = Some t \<longrightarrow> price_irr t \<in> set ticket_prices)"

text \<open>\<open>answers tc m\<close>: the history entry \<open>m\<close> is the tool message for the call \<open>tc\<close>.\<close>

definition answers :: "tool_call \<Rightarrow> msg \<Rightarrow> bool" where
  "answers tc m = (case m of ToolMsg i n r \<Rightarrow> i = call_id tc \<and> n = fn_name tc | _ \<Rightarrow> False)"

text \<open>
  \<open>tool_rounds env i n ms\<close>: the entries \<open>ms\<close> are what \<open>n\<close> rounds of tool calls,
  from iteration \<open>i\<close> on, add to the history: for each round the dump of the
  assistant message of that iteration, followed by one tool message for each call
  it requests, in the order of the requests.
\<close>

fun tool_rounds :: "env \<Rightarrow> nat \<Rightarrow> nat \<Rightarrow> msg list \<Rightarrow> bool" where
  "tool_rounds env i 0 ms = (ms = [])"
| "tool_rounds env i (Suc n) ms =
     (case chat_completion env i of
        Inl e \<Rightarrow> False
      | Inr r \<Rightarrow>
          (case ms of
             [] \<Rightarrow> False
           | m # rest \<Rightarrow>
               m = AssistantToolCalls r \<and>
               length (requested_calls r) \<le> length rest \<and>
               list_all2 answers (requested_calls r) (take (length (requested_calls r)) rest) \<and>
               tool_rounds env (Suc i) n (drop (length (requested_calls r)) rest)))"

text \<open>
  Consecutive calls of \<open>book_ticket\<close> on the store, one for each request; a request
  is the uuid and the clock reading of the call followed by its five arguments.
  \<open>departure_times\<close> lists the departure times of the tickets in the results.
\<close>

type_synonym booking_request = "string \<times> string \<times> json \<times> json \<times> json \<times> json \<times> json"

fun book_all ::
  "str_methods \<Rightarrow> booking_request list \<Rightarrow> ticket_db \<Rightarrow> tool_result list \<times> ticket_db" where
  "book_all sm [] db = ([], db)"
| "book_all sm ((hex, now, oc, dc, dt, p, n) # bookings) db =
     (let (r, db1) = book_ticket sm hex now oc dc dt p n db;
          (rs, db2) = book_all sm bookings db1
      in (r # rs, db2))"

definition departure_times :: "tool_result list \<Rightarrow> string list" where
  "departure_times rs = List.map_filter (\<lambda>r. map_option departure_time (details r)) rs"

section \<open>Sample data\<close>

text \<open>A booked ticket, the store that holds it, and the store after its cancellation.\<close>

definition sample_ticket :: ticket where
  "sample_ticket =
     \<lparr>ticket_id = ''SF-TEKI-3F9A1C'',
      origin = JString ''Tehran'',
      destination = JString ''Kish'',
      travel_date = JString ''2025-03-01'',
      departure_time = ''08:00'',
      passenger_name = JString ''Sara Ahmadi'',
      national_id = JString ''0012345678'',
      price_irr = PyFloat 2250000,
      status = ''CONFIRMED'',
      booking_date = ''2025-02-01 10:00:00'',
      cancellation_date = None\<rparr>"

definition sample_db :: ticket_db where
  "sample_db = fmupd ''SF-TEKI-3F9A1C'' sample_ticket fmempty"

definition cancelled_db :: ticket_db where
  "cancelled_db =
     fmupd ''SF-TEKI-3F9A1C''
       (sample_ticket\<lparr>status := ''CANCELLED'', cancellation_date := Some ''2025-02-02 09:30:00''\<rparr>)
       fmempty"

text \<open>
  Two tool calls: a lookup of a ticket id, and a booking whose payload is the empty
  object and so omits every argument.
\<close>

definition lookup_call :: tool_call where
  \<open>lookup_call =
     \<lparr>call_id = ''call_1'', fn_name = ''get_ticket_info'',
      fn_arguments = ''{"ticket_id": "SF-TEKI-3F9A1C"}''\<rparr>\<close>

definition booking_call :: tool_call where
  "booking_call = \<lparr>call_id = ''call_2'', fn_name = ''book_ticket'', fn_arguments = ''{}''\<rparr>"

text \<open>
  A stand-in for \<open>json.loads\<close> that parses the two valid payloads above and answers
  every other text with \<open>JSONDecodeError\<close>.
\<close>

definition mock_json_loads :: "string \<Rightarrow> py_exn + json" where
  \<open>mock_json_loads payload =
     (if payload = ''{}'' then Inr (JObject [])
      else if payload = ''{"ticket_id": "SF-TEKI-3F9A1C"}''
      then Inr (JObject [(''ticket_id'', JString ''SF-TEKI-3F9A1C'')])
      else Inl JSONDecodeError)\<close>

text \<open>
  \<open>str.lower\<close> and \<open>str.upper\<close> as they are on ASCII text, which is all the samples
  contain: the ASCII letters change case and every other byte is kept.
\<close>

definition upper_char :: "char \<Rightarrow> char" where
  "upper_char c =
     (let n = (of_char c :: nat) in if 97 \<le> n \<and> n \<le> 122 then char_of (n - 32) else c)"

definition lower_char :: "char \<Rightarrow> char" where
  "lower_char c =
     (let n = (of_char c :: nat) in if 65 \<le> n \<and> n \<le> 90 then char_of (n + 32) else c)"

definition ascii_str :: str_methods where
  "ascii_str = \<lparr>str_lower = map lower_char, str_upper = map upper_char\<rparr>"

text \<open>
  Three completion services: one that requests the same tool call in every
  iteration, one that requests it once and fails from then on, and one that
  answers with a text. \<open>mock_env\<close> puts a service into an environment with an empty
  policy corpus.
\<close>

definition requests :: "tool_call \<Rightarrow> model_response" where
  "requests tc = \<lparr>content = None, tool_calls = Some [tc]\<rparr>"

definition always_requests :: "tool_call \<Rightarrow> nat \<Rightarrow> string + model_response" where
  "always_requests tc i = Inr (requests tc)"

definition requests_then_fails :: "tool_call \<Rightarrow> nat \<Rightarrow> string + model_response" where
  "requests_then_fails tc i = (if i = 0 then Inr (requests tc) else Inl ''Request timed out.'')"

definition answers_text :: "string \<Rightarrow> nat \<Rightarrow> string + model_response" where
  "answers_text final i = Inr \<lparr>content = Some final, tool_calls = None\<rparr>"

definition mock_env :: "(nat \<Rightarrow> string + model_response) \<Rightarrow> env" where
  "mock_env service =
     \<lparr>chat_completion = service,
      json_loads = mock_json_loads,
      py_str = ascii_str,
      uuid4_hex = (\<lambda>n. ''3f9a1c0de4b24a6f8d1e2c3b4a5f6071''),
      strftime_now = (\<lambda>n. ''2025-02-01 10:00:00''),
      collection_count = 0,
      collection_query = (\<lambda>n q. Inr []),
      destination_completion = (\<lambda>n p. Inl ''Connection error.'')\<rparr>"

definition initial_state :: agent_state where
  "initial_state = \<lparr>history = [SystemMsg ''### ROLE & IDENTITY''], TICKET_DB = fmempty, tick = 0\<rparr>"

text \<open>
  A service that requests the lookup in the first four iterations and the booking
  without arguments in the fifth.
\<close>

definition lookups_then_booking :: "nat \<Rightarrow> string + model_response" where
  "lookups_then_booking i = Inr (requests (if i < 4 then lookup_call else booking_call))"

text \<open>
  A payload of 2000 opening brackets. It is not valid JSON, and \<open>json.loads\<close> of
  CPython gives up on its nesting with \<open>RecursionError\<close>, which is not a
  \<open>JSONDecodeError\<close>. \<open>recursing_json_loads\<close> is the stand-in extended by this
  payload, \<open>deep_env\<close> an environment with it whose service requests a cancellation
  with this payload.
\<close>

definition nested_payload :: string where
  "nested_payload = replicate 2000 (CHR ''['')"

definition nested_call :: tool_call where
  "nested_call =
     \<lparr>call_id = ''call_5'', fn_name = ''cancel_ticket'', fn_arguments = nested_payload\<rparr>"

definition recursing_json_loads :: "string \<Rightarrow> py_exn + json" where
  "recursing_json_loads payload =
     (if payload = nested_payload then Inl RecursionError else mock_json_loads payload)"

definition deep_env :: env where
  "deep_env = (mock_env (always_requests nested_call))\<lparr>json_loads := recursing_json_loads\<rparr>"

text \<open>
  Three bookings from Tehran to Kish, one after the other. The uuids drawn for the
  first two differ, but agree in the six digits that the ticket id keeps.
\<close>

definition three_bookings :: "booking_request list" where
  "three_bookings =
     [(''3f9a1c0de4b24a6f8d1e2c3b4a5f6071'', ''2025-02-01 10:00:00'',
       JString ''Tehran'', JString ''Kish'', JString ''2025-03-01'',
       JString ''Sara Ahmadi'', JString ''0012345678''),
      (''3f9a1c77aa014c2e9b5d6f7081920a1b'', ''2025-02-01 10:05:00'',
       JString ''Tehran'', JString ''Kish'', JString ''2025-03-02'',
       JString ''Reza Karimi'', JString ''0087654321''),
      (''b81e02c4d5f64a7f9c3e1d2a0b9f8e7d'', ''2025-02-01 10:10:00'',
       JString ''Tehran'', JString ''Kish'', JString ''2025-03-03'',
       JString ''Mina Rahimi'', JString ''0011223344'')]"

section \<open>Float arithmetic at the prices of the program\<close>

lemma ilog2_bounds: "0 < n \<Longrightarrow> 2 ^ ilog2 n \<le> n \<and> n < 2 ^ Suc (ilog2 n)"
proof (induction n rule: ilog2.induct)
  case (1 n)
  show ?case
  proof (cases "n < 2")
    case True
    with 1(2) have "n = 1" by simp
    then show ?thesis by (simp add: ilog2.simps)
  next
    case False
    then have pos: "0 < n div 2" by simp
    from 1(1)[OF False pos] have lo: "2 ^ ilog2 (n div 2) \<le> n div 2"
      and hi: "n div 2 < 2 ^ Suc (ilog2 (n div 2))" by simp_all
    have eq: "ilog2 n = Suc (ilog2 (n div 2))"
      using False by (subst ilog2.simps) simp
    from lo have "2 * 2 ^ ilog2 (n div 2) \<le> n" by linarith
    moreover from hi have "n < 2 * 2 ^ Suc (ilog2 (n div 2))" by linarith
    ultimately show ?thesis by (simp add: eq)
  qed
qed

lemma ilog2_eqI:
  assumes "2 ^ k \<le> n" and "n < 2 ^ Suc k"
  shows "ilog2 n = k"
proof -
  have pos: "0 < n" using assms(1) by (metis less_le_trans zero_less_numeral zero_less_power)
  from ilog2_bounds[OF pos] have lo: "2 ^ ilog2 n \<le> n" and hi: "n < 2 ^ Suc (ilog2 n)"
    by simp_all
  have "(2::nat) ^ k < 2 ^ Suc (ilog2 n)" using assms(1) hi by linarith
  then have a: "k < Suc (ilog2 n)" by (rule power_less_imp_less_exp[rotated]) simp
  have "(2::nat) ^ ilog2 n < 2 ^ Suc k" using assms(2) lo by linarith
  then have b: "ilog2 n < Suc k" by (rule power_less_imp_less_exp[rotated]) simp
  from a b show ?thesis by simp
qed

lemma round_half_even_eqI:
  assumes "\<bar>x - of_int m\<bar> < 1 / 2"
  shows "round_half_even x = m"
proof -
  have "\<lfloor>x\<rfloor> = m \<or> \<lfloor>x\<rfloor> = m - 1" using assms by linarith
  then show ?thesis
  proof
    assume f: "\<lfloor>x\<rfloor> = m"
    have "x - of_int m < 1 / 2" using assms by linarith
    then have "x - of_int \<lfloor>x\<rfloor> < 1 / 2" by (simp only: f)
    then show ?thesis by (simp add: round_half_even_def Let_def f)
  next
    assume f: "\<lfloor>x\<rfloor> = m - 1"
    have "of_int m - 1 \<le> x" using f by linarith
    have "x < of_int m" using f by linarith
    have "1 / 2 < x - (of_int m - 1)" using assms \<open>x < of_int m\<close> by linarith
    then have "1 / 2 < x - of_int \<lfloor>x\<rfloor>" by (simp add: f)
    then show ?thesis by (simp add: round_half_even_def Let_def f)
  qed
qed


lemma pow2_pos: "0 < pow2 k"
  by (simp add: pow2_def)

lemma pow2_nat: "pow2 (int k) = 2 ^ k"
  by (simp add: pow2_def)

lemma float_exponent_ge1:
  assumes "1 \<le> x" and "pow2 e \<le> x" and "x < pow2 (e + 1)"
  shows "float_exponent x = e"
proof -
  have e0: "0 \<le> e"
  proof (rule ccontr)
    assume "\<not> 0 \<le> e"
    then have "pow2 (e + 1) \<le> 1"
      by (auto simp: pow2_def divide_le_eq_1)
    with assms show False by linarith
  qed
  define k where "k = nat e"
  have ek: "e = int k" using e0 by (simp add: k_def)
  have lo: "(2::rat) ^ k \<le> x" using assms(2) by (simp add: ek pow2_nat)
  have "pow2 (int k + 1) = 2 ^ Suc k" using pow2_nat[of "Suc k"] by (simp add: add.commute)
  then have hi: "x < (2::rat) ^ Suc k" using assms(3) by (simp only: ek)
  have "of_int (2 ^ k) \<le> x" using lo by simp
  then have flo: "2 ^ k \<le> \<lfloor>x\<rfloor>" by (simp only: le_floor_iff)
  have "of_int \<lfloor>x\<rfloor> \<le> x" by simp
  with hi have "of_int \<lfloor>x\<rfloor> < (2::rat) ^ Suc k" by linarith
  then have "of_int \<lfloor>x\<rfloor> < (of_int (2 ^ Suc k) :: rat)" by (simp only: of_int_power of_int_numeral)
  then have fhi: "\<lfloor>x\<rfloor> < 2 ^ Suc k" by (simp only: of_int_less_iff)
  have n1: "2 ^ k \<le> nat \<lfloor>x\<rfloor>" using flo by (simp add: le_nat_iff)
  have fnn: "0 \<le> \<lfloor>x\<rfloor>" using assms(1) by simp
  have "\<lfloor>x\<rfloor> < int (2 ^ Suc k)" using fhi by simp
  then have n2: "nat \<lfloor>x\<rfloor> < 2 ^ Suc k" using fnn by (simp only: nat_less_iff)
  from ilog2_eqI[OF n1 n2] show ?thesis
    using assms(1) by (simp add: float_exponent_def ek)
qed


lemma round_double_eqI:
  assumes "x \<noteq> 0" and "float_exponent x = e"
    and "\<bar>x / pow2 (e - 52) - of_int m\<bar> < 1 / 2"
  shows "round_double x = of_int m * pow2 (e - 52)"
  using assms by (simp add: round_double_def Let_def round_half_even_eqI)

lemma ilog2_1: "ilog2 (Suc 0) = 0"
  by (subst ilog2.simps) simp

lemma ceiling_10_7: "\<lceil>10 / 7 :: rat\<rceil> = 2"
  by (rule ceiling_unique) simp_all

lemma float_exponent_07: "float_exponent (7 / 10) = - 1"
  by (simp add: float_exponent_def ceiling_10_7 ilog2_1)

lemma rd_D: "round_double (7 / 10) = 3152519739159347 / 4503599627370496"
  using round_double_eqI[OF _ float_exponent_07, of 6305039478318694]
  by (simp add: pow2_def)

lemma rd_A: "round_double (3 / 2) = 3 / 2"
proof -
  have e: "float_exponent (3 / 2) = 0"
    by (rule float_exponent_ge1) (simp_all add: pow2_def)
  show ?thesis
    using round_double_eqI[OF _ e, of 6755399441055744] by (simp add: pow2_def)
qed

lemma rd_B: "round_double 1500000 = 1500000"
proof -
  have e: "float_exponent 1500000 = 20"
    by (rule float_exponent_ge1) (simp_all add: pow2_def)
  show ?thesis
    using round_double_eqI[OF _ e, of 6442450944000000] by (simp add: pow2_def)
qed

lemma rd_C: "round_double 2250000 = 2250000"
proof -
  have e: "float_exponent 2250000 = 21"
    by (rule float_exponent_ge1) (simp_all add: pow2_def)
  show ?thesis
    using round_double_eqI[OF _ e, of 4831838208000000] by (simp add: pow2_def)
qed


lemma rd_F: "round_double (2250000 * (3152519739159347 / 4503599627370496)) = 1575000"
proof -
  have e: "float_exponent (2250000 * (3152519739159347 / 4503599627370496)) = 20"
    by (rule float_exponent_ge1) (simp_all add: pow2_def)
  show ?thesis
    using round_double_eqI[OF _ e, of 6764573491200000] by (simp add: pow2_def)
qed

lemma rd_G: "round_double 1575000 = 1575000"
proof -
  have e: "float_exponent 1575000 = 20"
    by (rule float_exponent_ge1) (simp_all add: pow2_def)
  show ?thesis
    using round_double_eqI[OF _ e, of 6764573491200000] by (simp add: pow2_def)
qed

lemma rd_H: "round_double 675000 = 675000"
proof -
  have e: "float_exponent 675000 = 19"
    by (rule float_exponent_ge1) (simp_all add: pow2_def)
  show ?thesis
    using round_double_eqI[OF _ e, of 5798205849600000] by (simp add: pow2_def)
qed

lemma premium_price: "mul_float (PyInt 1500000) (3 / 2) = 2250000"
proof -
  have a: "(1500000::rat) * (3 / 2) = 2250000" by simp
  show ?thesis
    by (simp only: mul_float_def to_float.simps of_int_numeral rd_A rd_B a rd_C)
qed


lemma refund_float: "py_int (mul_float (PyFloat 2250000) (7 / 10)) = 1575000"
proof -
  have "mul_float (PyFloat 2250000) (7 / 10) = 1575000"
    by (simp only: mul_float_def to_float.simps rd_D rd_F)
  then show ?thesis by (simp add: py_int_def)
qed

lemma penalty_float: "sub_int (PyFloat 2250000) 1575000 = PyFloat 675000"
proof -
  have a: "(2250000::rat) - 1575000 = 675000" by simp
  show ?thesis
    by (simp only: sub_int.simps of_int_numeral rd_G a rd_H)
qed

section \<open>Booking\<close>

lemma sample_ticket_id:
  "generate_ticket_id ascii_str ''3f9a1c0de4b24a6f8d1e2c3b4a5f6071'' ''Tehran'' ''Kish'' =
     ''SF-TEKI-3F9A1C''"
  by (simp add: generate_ticket_id_def ascii_str_def upper_char_def continuation_byte_def
      char_of_eq_iff)

lemma lower_Kish: "str_lower ascii_str ''Kish'' = ''kish''"
  by (simp add: ascii_str_def lower_char_def char_of_eq_iff)

lemma book_sample:
  "book_ticket ascii_str ''3f9a1c0de4b24a6f8d1e2c3b4a5f6071'' ''2025-02-01 10:00:00'' (JString ''Tehran'') (JString ''Kish'')
     (JString ''2025-03-01'') (JString ''Sara Ahmadi'') (JString ''0012345678'') fmempty =
   ((result ''success'' TicketBooked)\<lparr>details := Some sample_ticket\<rparr>, sample_db)"
  by (simp add: book_ticket_def sample_ticket_id lower_Kish premium_price travel_times_def
      sample_ticket_def sample_db_def Let_def result_def fcard_fempty)

lemma book_ticket_success:
  assumes "book_ticket sm hex now oc dc dt p n db = (r, db')" and "res_status r = ''success''"
  shows "\<exists>orig dst t. oc = JString orig \<and> dc = JString dst \<and>
           r = (result ''success'' TicketBooked)\<lparr>details := Some t\<rparr> \<and>
           db' = fmupd (ticket_id t) t db \<and>
           ticket_id t = generate_ticket_id sm hex orig dst \<and>
           origin t = oc \<and> destination t = dc \<and> travel_date t = dt \<and>
           passenger_name t = p \<and> national_id t = n \<and>
           departure_time t = travel_times ! (fcard (fmdom db) mod 3) \<and>
           price_irr t =
             (if str_lower sm dst \<in> set [''kish'', ''qeshm''] then PyFloat 2250000 else PyInt 1500000) \<and>
           status t = ''CONFIRMED'' \<and> booking_date t = now \<and> cancellation_date t = None"
proof (cases "list_all truthy [oc, dc, dt, p, n]")
  case False
  with assms show ?thesis by (auto simp: book_ticket_def result_def)
next
  case True
  show ?thesis
  proof (cases dc)
    case (JString dst)
    show ?thesis
    proof (cases oc)
      case (JString orig)
      with assms True \<open>dc = JString dst\<close> show ?thesis
        by (auto simp: book_ticket_def Let_def premium_price)
    qed (use assms True JString in \<open>auto simp: book_ticket_def result_def\<close>)
  qed (use assms True in \<open>auto simp: book_ticket_def result_def\<close>)
qed

lemma book_ticket_missing_field:
  assumes "\<not> truthy oc \<or> \<not> truthy dc \<or> \<not> truthy dt \<or> \<not> truthy p \<or> \<not> truthy n"
  shows "book_ticket sm hex now oc dc dt p n db = (result ''error'' MissingBookingInfo, db)"
  using assms by (auto simp: book_ticket_def)

lemma book_ticket_failure:
  assumes "book_ticket sm hex now oc dc dt p n db = (r, db')" and "res_status r \<noteq> ''success''"
  shows "res_status r = ''error'' \<and> db' = db"
proof (cases "list_all truthy [oc, dc, dt, p, n]")
  case False
  with assms show ?thesis by (auto simp: book_ticket_def result_def)
next
  case True
  show ?thesis
  proof (cases dc)
    case (JString dst)
    show ?thesis
    proof (cases oc)
      case (JString orig)
      with assms True \<open>dc = JString dst\<close> show ?thesis
        by (auto simp: book_ticket_def Let_def result_def)
    qed (use assms True JString in \<open>auto simp: book_ticket_def result_def\<close>)
  qed (use assms True in \<open>auto simp: book_ticket_def result_def\<close>)
qed

lemma book_ticket_price_and_slot:
  assumes "book_ticket sm hex now oc dc dt p n db = (r, db')" and "res_status r = ''success''"
  shows "\<exists>dst t. dc = JString dst \<and> details r = Some t \<and>
           num_val (price_irr t) =
             (if str_lower sm dst \<in> set [''kish'', ''qeshm'']
              then 1500000 * (15 / 10) else 1500000) \<and>
           departure_time t = travel_times ! (fcard (fmdom db) mod 3)"
proof -
  from book_ticket_success[OF assms]
  obtain orig dst t where b: "dc = JString dst"
    "r = (result ''success'' TicketBooked)\<lparr>details := Some t\<rparr>"
    "departure_time t = travel_times ! (fcard (fmdom db) mod 3)"
    "price_irr t =
       (if str_lower sm dst \<in> set [''kish'', ''qeshm''] then PyFloat 2250000 else PyInt 1500000)"
    by blast
  have price: "num_val (price_irr t) =
      (if str_lower sm dst \<in> set [''kish'', ''qeshm''] then 1500000 * (15 / 10) else 1500000)"
    by (simp add: b(4))
  have d: "details r = Some t" by (simp add: b(2))
  from b(1) d price b(3) show ?thesis by blast
qed

lemma book_ticket_count:
  assumes "book_ticket sm hex now oc dc dt p n db = (r, db')"
  shows "fcard (fmdom db') \<le> fcard (fmdom db) + 1"
    and "fcard (fmdom db') = fcard (fmdom db) + 1 \<Longrightarrow>
           \<exists>t. details r = Some t \<and>
                departure_time t = travel_times ! (fcard (fmdom db) mod 3)"
proof -
  show "fcard (fmdom db') \<le> fcard (fmdom db) + 1"
  proof (cases "res_status r = ''success''")
    case True
    from book_ticket_success[OF assms True] obtain t where "db' = fmupd (ticket_id t) t db"
      by blast
    then show ?thesis by (simp add: fcard_finsert_if)
  next
    case False
    with book_ticket_failure[OF assms] show ?thesis by simp
  qed
  assume grow: "fcard (fmdom db') = fcard (fmdom db) + 1"
  have "res_status r = ''success''"
  proof (rule ccontr)
    assume "res_status r \<noteq> ''success''"
    with book_ticket_failure[OF assms] have "db' = db" by simp
    with grow show False by simp
  qed
  from book_ticket_success[OF assms this]
  show "\<exists>t. details r = Some t \<and>
           departure_time t = travel_times ! (fcard (fmdom db) mod 3)"
    by auto
qed

lemma book_all_count:
  "book_all sm bookings db = (rs, db') \<Longrightarrow>
     fcard (fmdom db') \<le> fcard (fmdom db) + length bookings"
proof (induction bookings arbitrary: db rs db')
  case Nil
  then show ?case by simp
next
  case (Cons b bookings)
  obtain hex now oc dc dt p n where b: "b = (hex, now, oc, dc, dt, p, n)"
    by (cases b)
  obtain r db1 where first: "book_ticket sm hex now oc dc dt p n db = (r, db1)"
    by (cases "book_ticket sm hex now oc dc dt p n db")
  obtain rs1 db2 where rest: "book_all sm bookings db1 = (rs1, db2)"
    by (cases "book_all sm bookings db1")
  from Cons.prems b first rest have "db' = db2" by simp
  with Cons.IH[OF rest] book_ticket_count(1)[OF first] show ?case by simp
qed

text \<open>
  When every one of the consecutive bookings adds a ticket to the store, that is,
  succeeds under an id that is new, the departure times cycle through the three
  slots in order, starting at the slot of the count before the first booking.
\<close>

lemma consecutive_bookings_cycle:
  assumes "book_all sm bookings db = (rs, db')"
    and "fcard (fmdom db') = fcard (fmdom db) + length bookings"
  shows "departure_times rs =
           map (\<lambda>k. travel_times ! ((fcard (fmdom db) + k) mod 3)) [0..<length bookings]"
  using assms
proof (induction bookings arbitrary: db rs)
  case Nil
  then show ?case by (simp add: departure_times_def map_filter_simps)
next
  case (Cons b bookings)
  obtain hex now oc dc dt p n where b: "b = (hex, now, oc, dc, dt, p, n)"
    by (cases b)
  obtain r db1 where first: "book_ticket sm hex now oc dc dt p n db = (r, db1)"
    by (cases "book_ticket sm hex now oc dc dt p n db")
  obtain rs1 where rest: "book_all sm bookings db1 = (rs1, db')"
    using Cons.prems(1) b first by (cases "book_all sm bookings db1") simp
  have rs: "rs = r # rs1" using Cons.prems(1) b first rest by simp
  from book_ticket_count(1)[OF first] book_all_count[OF rest] Cons.prems(2)
  have g1: "fcard (fmdom db1) = fcard (fmdom db) + 1"
    and g2: "fcard (fmdom db') = fcard (fmdom db1) + length bookings"
    by simp_all
  from book_ticket_count(2)[OF first g1] obtain t where t: "details r = Some t"
    "departure_time t = travel_times ! (fcard (fmdom db) mod 3)"
    by blast
  from Cons.IH[OF rest g2]
  have ih: "departure_times rs1 =
      map (\<lambda>k. travel_times ! ((fcard (fmdom db) + Suc k) mod 3)) [0..<length bookings]"
    by (simp add: g1)
  have "departure_times rs = departure_time t # departure_times rs1"
    by (simp add: rs departure_times_def map_filter_simps t(1))
  also have "\<dots> = map (\<lambda>k. travel_times ! ((fcard (fmdom db) + k) mod 3))
      (0 # map Suc [0..<length bookings])"
    by (simp add: t(2) ih comp_def)
  also have "0 # map Suc [0..<length bookings] = [0..<length (b # bookings)]"
    by (simp add: upt_conv_Cons map_Suc_upt del: upt_Suc)
  finally show ?case .
qed

lemma three_ticket_ids:
  "generate_ticket_id ascii_str ''3f9a1c77aa014c2e9b5d6f7081920a1b'' ''Tehran'' ''Kish'' =
     ''SF-TEKI-3F9A1C''"
  "generate_ticket_id ascii_str ''b81e02c4d5f64a7f9c3e1d2a0b9f8e7d'' ''Tehran'' ''Kish'' =
     ''SF-TEKI-B81E02''"
  by (simp_all add: generate_ticket_id_def ascii_str_def upper_char_def continuation_byte_def
      char_of_eq_iff)

lemma unknown_ticket_id:
  assumes "fmlookup db k = None"
  shows "get_ticket_info (JString k) db = Return (result ''error'' (TicketNotFound (JString k)))"
    and "cancel_ticket now (JString k) db =
           (Return (result ''error'' (TicketNotFound (JString k))), db)"
  using assms by (simp_all add: get_ticket_info_def cancel_ticket_def)

lemma empty_policy_corpus:
  "lookup_policy 0 query q = Return (result ''error'' PolicyUnavailable)"
  by (simp add: lookup_policy_def)

section \<open>The prices in the store\<close>

text \<open>
  The store starts empty, and no tool call and no turn puts a ticket with another
  price into it.
\<close>

lemma booked_prices_empty: "booked_prices fmempty"
  by (simp add: booked_prices_def)

lemma book_ticket_prices:
  assumes "booked_prices db" and "book_ticket sm hex now oc dc dt p n db = (r, db')"
  shows "booked_prices db'"
proof (cases "res_status r = ''success''")
  case True
  from book_ticket_success[OF assms(2) True] obtain dst t where
    "db' = fmupd (ticket_id t) t db"
    "price_irr t =
       (if str_lower sm dst \<in> set [''kish'', ''qeshm''] then PyFloat 2250000 else PyInt 1500000)"
    by blast
  with assms(1) show ?thesis
    by (auto simp: booked_prices_def ticket_prices_def)
next
  case False
  with book_ticket_failure[OF assms(2)] assms(1) show ?thesis by simp
qed

lemma cancel_ticket_prices:
  assumes "booked_prices db" and "cancel_ticket now tid db = (x, db')"
  shows "booked_prices db'"
proof (cases tid)
  case (JString k)
  with assms show ?thesis
    by (auto simp: cancel_ticket_def Let_def booked_prices_def
        split: option.splits if_splits)
qed (use assms in \<open>auto simp: cancel_ticket_def\<close>)

lemma apply_tool_prices:
  "booked_prices (TICKET_DB s) \<Longrightarrow> apply_tool env f vs s = (x, s') \<Longrightarrow>
     booked_prices (TICKET_DB s')"
  by (induction env f vs s rule: apply_tool.induct)
     (auto split: prod.splits dest: book_ticket_prices cancel_ticket_prices)

lemma execute_tool_call_prices:
  "booked_prices (TICKET_DB s) \<Longrightarrow> execute_tool_call env tc s = (x, s') \<Longrightarrow>
     booked_prices (TICKET_DB s')"
  by (auto simp: execute_tool_call_def call_tool_def
      split: option.splits sum.splits if_splits dest: apply_tool_prices)

lemma run_tool_calls_prices:
  "booked_prices (TICKET_DB s) \<Longrightarrow> run_tool_calls env tcs s = (x, s') \<Longrightarrow>
     booked_prices (TICKET_DB s')"
proof (induction tcs arbitrary: s x s')
  case Nil
  then show ?case by simp
next
  case (Cons tc tcs)
  obtain y s1 where e: "execute_tool_call env tc s = (y, s1)"
    by (cases "execute_tool_call env tc s")
  from execute_tool_call_prices[OF Cons.prems(1) e] have p1: "booked_prices (TICKET_DB s1)" .
  show ?case
  proof (cases y)
    case (Raise ex)
    with Cons.prems(2) e p1 show ?thesis by simp
  next
    case (Return r)
    obtain z s2 where rest: "run_tool_calls env tcs s1 = (z, s2)"
      by (cases "run_tool_calls env tcs s1")
    from Cons.IH[OF p1 rest] have "booked_prices (TICKET_DB s2)" .
    with Cons.prems(2) e Return rest show ?thesis
      by (cases z) auto
  qed
qed

lemma tool_loop_prices:
  "booked_prices (TICKET_DB s) \<Longrightarrow> tool_loop env i n s = (x, s') \<Longrightarrow>
     booked_prices (TICKET_DB s')"
proof (induction n arbitrary: i s)
  case 0
  then show ?case by simp
next
  case (Suc n)
  show ?case
  proof (cases "chat_completion env i")
    case (Inl e)
    with Suc.prems show ?thesis
      by (auto simp: pop_and_return_def split: if_splits)
  next
    case (Inr r)
    show ?thesis
    proof (cases "final_response r")
      case (Some final)
      with Suc.prems Inr show ?thesis by auto
    next
      case None
      show ?thesis
      proof (cases "requested_calls r = []")
        case True
        with Suc.prems Inr None show ?thesis
          by (auto simp: pop_and_return_def split: if_splits)
      next
        case False
        let ?s1 = "s\<lparr>history := history s @ [AssistantToolCalls r]\<rparr>"
        obtain y s2 where run: "run_tool_calls env (requested_calls r) ?s1 = (y, s2)"
          by (cases "run_tool_calls env (requested_calls r) ?s1")
        have "booked_prices (TICKET_DB ?s1)" using Suc.prems(1) by simp
        from run_tool_calls_prices[OF this run] have p2: "booked_prices (TICKET_DB s2)" .
        show ?thesis
        proof (cases y)
          case (Raise ex)
          with Suc.prems(2) Inr None False run p2 show ?thesis by simp
        next
          case (Return outs)
          with Suc.prems(2) Inr None False run
          have "tool_loop env (Suc i) n (s2\<lparr>history := history s2 @ outs\<rparr>) = (x, s')"
            by simp
          moreover have "booked_prices (TICKET_DB (s2\<lparr>history := history s2 @ outs\<rparr>))"
            using p2 by simp
          ultimately show ?thesis by (rule Suc.IH[rotated])
        qed
      qed
    qed
  qed
qed

lemma process_message_prices:
  "booked_prices (TICKET_DB s) \<Longrightarrow> process_message env user_message s = (x, s') \<Longrightarrow>
     booked_prices (TICKET_DB s')"
  using tool_loop_prices[of "s\<lparr>history := history s @ [UserMsg user_message]\<rparr>" env 0 5 x s']
  by (simp add: process_message_def)

section \<open>Dispatch and the loop\<close>

lemma func_map_None:
  "func_map name = None \<longleftrightarrow> name \<notin> set (map tool_name get_tool_callables)"
  by (auto simp: func_map_def map_of_eq_None_iff image_image)

lemma those_map_of_missing:
  assumes "p \<in> set params" and "map_of kvs p = None"
  shows "those (map (map_of kvs) params) = None"
  using assms by (induction params) (auto split: option.splits)

lemma missing_parameter_raises:
  assumes "func_map (fn_name tc) = Some f"
    and "json_loads env (fn_arguments tc) = Inr (JObject kvs)"
    and "p \<in> set (tool_params f)" and "p \<notin> fst ` set kvs"
  shows "execute_tool_call env tc s = (Raise TypeError, s)"
proof -
  from assms(4) have "map_of kvs p = None" by (simp add: map_of_eq_None_iff)
  with assms(3) have "those (map (map_of kvs) (tool_params f)) = None"
    by (rule those_map_of_missing)
  then have "bind_kwargs (tool_params f) (JObject kvs) = None"
    by (simp add: bind_kwargs_def)
  with assms(1,2) show ?thesis
    by (simp add: execute_tool_call_def call_tool_def)
qed

lemma apply_tool_history: "apply_tool env f vs s = (x, s') \<Longrightarrow> history s' = history s"
  by (induction env f vs s rule: apply_tool.induct) (auto split: prod.splits)

lemma execute_tool_call_history:
  "execute_tool_call env tc s = (x, s') \<Longrightarrow> history s' = history s"
  by (auto simp: execute_tool_call_def call_tool_def apply_tool_history
      split: option.splits sum.splits if_splits)

lemma run_tool_calls_outputs:
  "run_tool_calls env tcs s = (Return outs, s') \<Longrightarrow>
     history s' = history s \<and> list_all2 answers tcs outs"
proof (induction tcs arbitrary: s outs s')
  case Nil
  then show ?case by simp
next
  case (Cons tc tcs)
  from Cons.prems obtain r s1 outs1 where
    e: "execute_tool_call env tc s = (Return r, s1)" and
    rest: "run_tool_calls env tcs s1 = (Return outs1, s')" and
    outs: "outs = ToolMsg (call_id tc) (fn_name tc) r # outs1"
    by (auto split: prod.splits outcome.splits)
  from Cons.IH[OF rest] execute_tool_call_history[OF e] outs
  show ?case by (simp add: answers_def)
qed

lemma tool_loop_rounds:
  assumes "\<forall>j<n. \<exists>r. chat_completion env (i + j) = Inr r \<and> final_response r = None \<and>
             requested_calls r \<noteq> []"
    and "tool_loop env i n s = (Return x, s')"
  shows "x = max_steps_msg \<and> (\<exists>ex. history s' = history s @ ex \<and> tool_rounds env i n ex)"
  using assms
proof (induction n arbitrary: i s)
  case 0
  then show ?case by simp
next
  case (Suc n)
  from Suc.prems(1) obtain r where r: "chat_completion env i = Inr r"
    "final_response r = None" "requested_calls r \<noteq> []"
    by force
  let ?s1 = "s\<lparr>history := history s @ [AssistantToolCalls r]\<rparr>"
  from Suc.prems(2) r obtain outs s2 where
    run: "run_tool_calls env (requested_calls r) ?s1 = (Return outs, s2)" and
    loop: "tool_loop env (Suc i) n (s2\<lparr>history := history s2 @ outs\<rparr>) = (Return x, s')"
    by (auto split: prod.splits outcome.splits)
  from run_tool_calls_outputs[OF run] have h2: "history s2 = history s @ [AssistantToolCalls r]"
    and ans: "list_all2 answers (requested_calls r) outs"
    by simp_all
  have later: "\<forall>j<n. \<exists>r. chat_completion env (Suc i + j) = Inr r \<and> final_response r = None \<and>
      requested_calls r \<noteq> []"
  proof (intro allI impI)
    fix j assume "j < n"
    then have "Suc j < Suc n" by simp
    with Suc.prems(1) have "\<exists>r. chat_completion env (i + Suc j) = Inr r \<and>
        final_response r = None \<and> requested_calls r \<noteq> []"
      by blast
    then show "\<exists>r. chat_completion env (Suc i + j) = Inr r \<and> final_response r = None \<and>
        requested_calls r \<noteq> []"
      by simp
  qed
  from Suc.IH[OF later loop] obtain ex where x: "x = max_steps_msg"
    and hs: "history s' = history (s2\<lparr>history := history s2 @ outs\<rparr>) @ ex"
    and tr: "tool_rounds env (Suc i) n ex"
    by blast
  have len: "length (requested_calls r) = length outs"
    using ans by (rule list_all2_lengthD)
  have "history s' = history s @ (AssistantToolCalls r # outs @ ex)"
    using hs h2 by simp
  moreover have "tool_rounds env i (Suc n) (AssistantToolCalls r # outs @ ex)"
    using r(1) ans tr len by simp
  ultimately show ?case using x by blast
qed

lemma dispatch_error_results:
  "(fn_name tc \<notin> set (map tool_name get_tool_callables) \<longrightarrow>
      execute_tool_call env tc s =
        (Return (result ''error'' (UnknownFunction (fn_name tc))), s)) \<and>
   (fn_name tc \<in> set (map tool_name get_tool_callables) \<and>
    json_loads env (fn_arguments tc) = Inl JSONDecodeError \<longrightarrow>
      execute_tool_call env tc s =
        (Return (result ''error'' (JSONDecodeFailed (fn_name tc))), s)) \<and>
   (fn_name tc \<in> set (map tool_name get_tool_callables) \<and>
    json_loads env (fn_arguments tc) = Inl e \<and> e \<noteq> JSONDecodeError \<longrightarrow>
      execute_tool_call env tc s = (Raise e, s))"
proof (intro conjI impI)
  assume "fn_name tc \<notin> set (map tool_name get_tool_callables)"
  then have "func_map (fn_name tc) = None" using func_map_None by blast
  then show "execute_tool_call env tc s =
      (Return (result ''error'' (UnknownFunction (fn_name tc))), s)"
    by (simp add: execute_tool_call_def)
next
  assume a: "fn_name tc \<in> set (map tool_name get_tool_callables) \<and>
    json_loads env (fn_arguments tc) = Inl JSONDecodeError"
  then have "func_map (fn_name tc) \<noteq> None" using func_map_None by blast
  then obtain f where "func_map (fn_name tc) = Some f" by blast
  with a show "execute_tool_call env tc s =
      (Return (result ''error'' (JSONDecodeFailed (fn_name tc))), s)"
    by (simp add: execute_tool_call_def)
next
  assume a: "fn_name tc \<in> set (map tool_name get_tool_callables) \<and>
    json_loads env (fn_arguments tc) = Inl e \<and> e \<noteq> JSONDecodeError"
  then have "func_map (fn_name tc) \<noteq> None" using func_map_None by blast
  then obtain f where "func_map (fn_name tc) = Some f" by blast
  with a show "execute_tool_call env tc s = (Raise e, s)"
    by (simp add: execute_tool_call_def)
qed

text \<open>
  A turn in which all five completions request tool calls either raises, because a
  tool call does, or returns the maximum-steps message with five rounds in the
  history.
\<close>

lemma max_steps_when_turn_returns:
  assumes "\<forall>i<5. \<exists>r. chat_completion env i = Inr r \<and> final_response r = None \<and>
             requested_calls r \<noteq> []"
    and "\<forall>e. fst (process_message env user_message s) \<noteq> Raise e"
  shows "\<exists>s' exchanges.
           process_message env user_message s = (Return max_steps_msg, s') \<and>
           history s' = history s @ UserMsg user_message # exchanges \<and>
           tool_rounds env 0 5 exchanges"
proof -
  let ?s0 = "s\<lparr>history := history s @ [UserMsg user_message]\<rparr>"
  obtain y s' where res: "tool_loop env 0 5 ?s0 = (y, s')"
    by (cases "tool_loop env 0 5 ?s0") 
  with assms(2) obtain x where y: "y = Return x"
    by (cases y) (auto simp: process_message_def)
  have calls: "\<forall>j<5. \<exists>r. chat_completion env (0 + j) = Inr r \<and> final_response r = None \<and>
      requested_calls r \<noteq> []"
    using assms(1) by simp
  from tool_loop_rounds[OF calls res[unfolded y]] obtain ex where
    "x = max_steps_msg" "history s' = history ?s0 @ ex" "tool_rounds env 0 5 ex"
    by blast
  then show ?thesis using res y by (auto simp: process_message_def)
qed

lemma first_call_fails_rollback:
  assumes "chat_completion env 0 = Inl e"
  shows "process_message env user_message s = (Return (error_msg e), s)"
  using assms by (simp add: process_message_def eval_nat_numeral pop_and_return_def)

lemma failure_after_tool_round:
  assumes "chat_completion env 0 = Inr r" and "final_response r = None"
    and "requested_calls r \<noteq> []" and "chat_completion env 1 = Inl e"
    and run: "run_tool_calls env (requested_calls r)
                (s\<lparr>history := history s @ [UserMsg user_message, AssistantToolCalls r]\<rparr>) =
              (Return outs, s1)"
  shows "process_message env user_message s =
           (Return (error_msg e),
            s1\<lparr>history := history s @ UserMsg user_message # AssistantToolCalls r # butlast outs\<rparr>)"
    and "length (history (snd (process_message env user_message s))) =
           length (history s) + 1 + length outs"
proof -
  from run_tool_calls_outputs[OF run]
  have h1: "history s1 = history s @ [UserMsg user_message, AssistantToolCalls r]"
    and ans: "list_all2 answers (requested_calls r) outs"
    by simp_all
  from ans assms(3) have ne: "outs \<noteq> []" by auto
  show "process_message env user_message s =
           (Return (error_msg e),
            s1\<lparr>history := history s @ UserMsg user_message # AssistantToolCalls r # butlast outs\<rparr>)"
    using assms(1-4) run h1 ne
    by (simp add: process_message_def eval_nat_numeral pop_and_return_def butlast_append)
  then show "length (history (snd (process_message env user_message s))) =
           length (history s) + 1 + length outs"
    using ne by simp
qed

lemma lookup_on_empty_store:
  assumes "TICKET_DB s = fmempty"
  shows "execute_tool_call (mock_env service) lookup_call s =
           (Return (result ''error'' (TicketNotFound (JString ''SF-TEKI-3F9A1C''))),
            s\<lparr>tick := Suc (tick s)\<rparr>)"
  using assms
  by (simp add: execute_tool_call_def func_map_def get_tool_callables_def lookup_call_def
      mock_env_def mock_json_loads_def call_tool_def bind_kwargs_def get_ticket_info_def)

lemma lookup_round_on_empty_store:
  assumes "TICKET_DB s = fmempty"
  shows "run_tool_calls (mock_env service) [lookup_call] s =
           (Return [ToolMsg ''call_1'' ''get_ticket_info''
                      (result ''error'' (TicketNotFound (JString ''SF-TEKI-3F9A1C'')))],
            s\<lparr>tick := Suc (tick s)\<rparr>)"
  by (simp add: lookup_on_empty_store[OF assms]) (simp add: lookup_call_def)

lemma five_lookup_rounds:
  "process_message (mock_env (always_requests lookup_call)) ''hi'' initial_state =
     (Return max_steps_msg,
      \<lparr>history =
         SystemMsg ''### ROLE & IDENTITY'' # UserMsg ''hi'' #
         concat (replicate 5
           [AssistantToolCalls (requests lookup_call),
            ToolMsg ''call_1'' ''get_ticket_info''
              (result ''error'' (TicketNotFound (JString ''SF-TEKI-3F9A1C'')))]),
       TICKET_DB = fmempty, tick = 5\<rparr>)"
proof -
  have r: "final_response (requests lookup_call) = None"
    "requested_calls (requests lookup_call) = [lookup_call]"
    by (simp_all add: final_response_def requested_calls_def requests_def)
  have c: "\<And>i. chat_completion (mock_env (always_requests lookup_call)) i =
      Inr (requests lookup_call)"
    by (simp add: mock_env_def always_requests_def)
  show ?thesis
    by (simp add: process_message_def eval_nat_numeral c r lookup_round_on_empty_store
        initial_state_def del: run_tool_calls.simps)
qed

section \<open>Claims about the orchestrator\<close>

text \<open>
  Claim C1, at a turn whose completion call fails in the second iteration. The
  service first requests one ticket lookup and then fails. The turn returns the
  apology text, but \<open>pop\<close> removes the tool message of the first round, not the
  user message: from a history of one entry the turn leaves three, the system
  message, the user message and the assistant's tool-call record.
\<close>

theorem rollback_pops_tool_message:
  "process_message (mock_env (requests_then_fails lookup_call)) ''hi'' initial_state =
     (Return (error_msg ''Request timed out.''),
      \<lparr>history = [SystemMsg ''### ROLE & IDENTITY'', UserMsg ''hi'',
                  AssistantToolCalls (requests lookup_call)],
       TICKET_DB = fmempty, tick = 1\<rparr>) \<and>
   length (history initial_state) = 1"
proof -
  have r: "final_response (requests lookup_call) = None"
    "requested_calls (requests lookup_call) = [lookup_call]"
    by (simp_all add: final_response_def requested_calls_def requests_def)
  have c: "chat_completion (mock_env (requests_then_fails lookup_call)) 0 =
      Inr (requests lookup_call)"
    "chat_completion (mock_env (requests_then_fails lookup_call)) (Suc 0) =
      Inl ''Request timed out.''"
    by (simp_all add: mock_env_def requests_then_fails_def)
  show ?thesis
    by (simp add: process_message_def eval_nat_numeral c r lookup_round_on_empty_store
        initial_state_def pop_and_return_def del: run_tool_calls.simps)
qed

text \<open>
  Claim C2. When the first completion of a turn carries non-empty text, the turn
  returns exactly that text, and the history grows by two entries: the user
  message followed by the assistant message with that text.
\<close>

theorem final_text_on_first_iteration:
  assumes "chat_completion env 0 = Inr r" and "content r = Some final" and "final \<noteq> []"
  shows "process_message env user_message s =
           (Return final,
            s\<lparr>history := history s @ [UserMsg user_message, AssistantMsg final]\<rparr>) \<and>
         length (history (snd (process_message env user_message s))) = length (history s) + 2"
proof -
  from assms(2,3) have "final_response r = Some final"
    by (cases final) (simp_all add: final_response_def)
  with assms(1) show ?thesis
    by (simp add: process_message_def eval_nat_numeral)
qed

theorem final_text_on_first_iteration_witness:
  "process_message (mock_env (answers_text ''Salam!'')) ''hi'' initial_state =
     (Return ''Salam!'',
      \<lparr>history = [SystemMsg ''### ROLE & IDENTITY'', UserMsg ''hi'', AssistantMsg ''Salam!''],
       TICKET_DB = fmempty, tick = 0\<rparr>)"
proof -
  have c: "chat_completion (mock_env (answers_text ''Salam!'')) 0 =
      Inr \<lparr>content = Some ''Salam!'', tool_calls = None\<rparr>"
    by (simp add: mock_env_def answers_text_def)
  have "content \<lparr>content = Some ''Salam!'', tool_calls = None\<rparr> = Some ''Salam!''"
    and "''Salam!'' \<noteq> []"
    by simp_all
  from final_text_on_first_iteration[OF c this, of "''hi''" initial_state]
  show ?thesis by (simp add: initial_state_def)
qed

text \<open>
  Claim C3, at a turn whose five completions all request tool calls, the last one a
  booking whose payload omits the arguments. The fifth round raises \<open>TypeError\<close>
  at the call of the tool, so the turn does not return the maximum-steps message:
  the exception leaves \<open>process_message\<close>, with the four finished rounds and the
  fifth tool-call record in the history.
\<close>

theorem tool_exception_in_fifth_round:
  "map (chat_completion (mock_env lookups_then_booking)) [0, 1, 2, 3, 4] =
     [Inr (requests lookup_call), Inr (requests lookup_call), Inr (requests lookup_call),
      Inr (requests lookup_call), Inr (requests booking_call)] \<and>
   process_message (mock_env lookups_then_booking) ''hi'' initial_state =
     (Raise TypeError,
      \<lparr>history =
         SystemMsg ''### ROLE & IDENTITY'' # UserMsg ''hi'' #
         concat (replicate 4
           [AssistantToolCalls (requests lookup_call),
            ToolMsg ''call_1'' ''get_ticket_info''
              (result ''error'' (TicketNotFound (JString ''SF-TEKI-3F9A1C'')))]) @
         [AssistantToolCalls (requests booking_call)],
       TICKET_DB = fmempty, tick = 4\<rparr>)"
proof -
  have r: "final_response (requests lookup_call) = None"
    "requested_calls (requests lookup_call) = [lookup_call]"
    "final_response (requests booking_call) = None"
    "requested_calls (requests booking_call) = [booking_call]"
    by (simp_all add: final_response_def requested_calls_def requests_def)
  have c: "chat_completion (mock_env lookups_then_booking) 0 = Inr (requests lookup_call)"
    "chat_completion (mock_env lookups_then_booking) (Suc 0) = Inr (requests lookup_call)"
    "chat_completion (mock_env lookups_then_booking) (Suc (Suc 0)) = Inr (requests lookup_call)"
    "chat_completion (mock_env lookups_then_booking) (Suc (Suc (Suc 0))) =
       Inr (requests lookup_call)"
    "chat_completion (mock_env lookups_then_booking) (Suc (Suc (Suc (Suc 0)))) =
       Inr (requests booking_call)"
    by (simp_all add: mock_env_def lookups_then_booking_def)
  have e: "\<And>s. execute_tool_call (mock_env lookups_then_booking) booking_call s =
      (Raise TypeError, s)"
    by (simp add: execute_tool_call_def func_map_def get_tool_callables_def booking_call_def
        mock_env_def mock_json_loads_def call_tool_def bind_kwargs_def)
  have b: "\<And>s. run_tool_calls (mock_env lookups_then_booking) [booking_call] s =
      (Raise TypeError, s)"
    by (simp add: e)
  have m: "map (chat_completion (mock_env lookups_then_booking)) [0, 1, 2, 3, 4] =
     [Inr (requests lookup_call), Inr (requests lookup_call), Inr (requests lookup_call),
      Inr (requests lookup_call), Inr (requests booking_call)]"
    by (simp add: mock_env_def lookups_then_booking_def)
  have "process_message (mock_env lookups_then_booking) ''hi'' initial_state =
     (Raise TypeError,
      \<lparr>history =
         SystemMsg ''### ROLE & IDENTITY'' # UserMsg ''hi'' #
         concat (replicate 4
           [AssistantToolCalls (requests lookup_call),
            ToolMsg ''call_1'' ''get_ticket_info''
              (result ''error'' (TicketNotFound (JString ''SF-TEKI-3F9A1C'')))]) @
         [AssistantToolCalls (requests booking_call)],
       TICKET_DB = fmempty, tick = 4\<rparr>)"
    by (simp add: process_message_def eval_nat_numeral c r b lookup_round_on_empty_store
        initial_state_def del: run_tool_calls.simps)
  with m show ?thesis by simp
qed

text \<open>
  Claim C5, at a booking request whose payload is the empty JSON object. Binding
  the arguments raises \<open>TypeError\<close> before \<open>book_ticket\<close> runs: dispatch does not
  return a result, and the exception leaves \<open>process_message\<close> as well, after the
  user message and the tool-call record have been appended to the history.
\<close>

theorem missing_arguments_raise:
  "execute_tool_call (mock_env (always_requests booking_call)) booking_call initial_state =
     (Raise TypeError, initial_state) \<and>
   process_message (mock_env (always_requests booking_call)) ''Book a flight'' initial_state =
     (Raise TypeError,
      \<lparr>history = [SystemMsg ''### ROLE & IDENTITY'', UserMsg ''Book a flight'',
                  AssistantToolCalls (requests booking_call)],
       TICKET_DB = fmempty, tick = 0\<rparr>)"
proof -
  have e: "\<And>s. execute_tool_call (mock_env (always_requests booking_call)) booking_call s =
      (Raise TypeError, s)"
    by (simp add: execute_tool_call_def func_map_def get_tool_callables_def booking_call_def
        mock_env_def mock_json_loads_def call_tool_def bind_kwargs_def)
  have r: "final_response (requests booking_call) = None"
    "requested_calls (requests booking_call) = [booking_call]"
    by (simp_all add: final_response_def requested_calls_def requests_def)
  have c: "\<And>i. chat_completion (mock_env (always_requests booking_call)) i =
      Inr (requests booking_call)"
    by (simp add: mock_env_def always_requests_def)
  have "process_message (mock_env (always_requests booking_call)) ''Book a flight'' initial_state =
     (Raise TypeError,
      \<lparr>history = [SystemMsg ''### ROLE & IDENTITY'', UserMsg ''Book a flight'',
                  AssistantToolCalls (requests booking_call)],
       TICKET_DB = fmempty, tick = 0\<rparr>)"
    by (simp add: process_message_def eval_nat_numeral c r e initial_state_def)
  with e show ?thesis by simp
qed

text \<open>
  Claim C6, at a payload that is not valid JSON and on which \<open>json.loads\<close> raises
  \<open>RecursionError\<close>: 2000 opening brackets as the arguments of \<open>cancel_ticket\<close>.
  The handler for \<open>JSONDecodeError\<close> does not catch it. Dispatch raises instead of
  returning an error result, and the exception leaves \<open>process_message\<close>.
\<close>

theorem recursion_error_leaves_dispatch:
  "json_loads deep_env (fn_arguments nested_call) = Inl RecursionError \<and>
   execute_tool_call deep_env nested_call initial_state =
     (Raise RecursionError, initial_state) \<and>
   process_message deep_env ''Cancel my ticket'' initial_state =
     (Raise RecursionError,
      \<lparr>history = [SystemMsg ''### ROLE & IDENTITY'', UserMsg ''Cancel my ticket'',
                  AssistantToolCalls (requests nested_call)],
       TICKET_DB = fmempty, tick = 0\<rparr>)"
proof -
  have l: "json_loads deep_env (fn_arguments nested_call) = Inl RecursionError"
    by (simp add: deep_env_def nested_call_def recursing_json_loads_def)
  have e: "\<And>s. execute_tool_call deep_env nested_call s = (Raise RecursionError, s)"
    using l by (simp add: execute_tool_call_def func_map_def get_tool_callables_def)
     (simp add: nested_call_def)
  have r: "final_response (requests nested_call) = None"
    "requested_calls (requests nested_call) = [nested_call]"
    by (simp_all add: final_response_def requested_calls_def requests_def)
  have c: "\<And>i. chat_completion deep_env i = Inr (requests nested_call)"
    by (simp add: deep_env_def mock_env_def always_requests_def)
  have "process_message deep_env ''Cancel my ticket'' initial_state =
     (Raise RecursionError,
      \<lparr>history = [SystemMsg ''### ROLE & IDENTITY'', UserMsg ''Cancel my ticket'',
                  AssistantToolCalls (requests nested_call)],
       TICKET_DB = fmempty, tick = 0\<rparr>)"
    by (simp add: process_message_def eval_nat_numeral c r e initial_state_def)
  with l e show ?thesis by simp
qed

section \<open>Claims about the ticket tools\<close>



text \<open>
  Claim C7. Cancelling a ticket whose status is already \<open>CANCELLED\<close> returns a
  result with status \<open>info\<close> and no refund, and leaves the whole store, and with it
  the ticket, exactly as it was.
\<close>

theorem cancel_cancelled_idempotent:
  assumes "fmlookup db k = Some t" and "status t = ''CANCELLED''"
  shows "cancel_ticket now (JString k) db =
           (Return (result ''info'' (AlreadyCancelled (JString k))), db)"
  using assms by (simp add: cancel_ticket_def)

theorem cancel_cancelled_idempotent_witness:
  "cancel_ticket ''2025-02-03 08:00:00'' (JString ''SF-TEKI-3F9A1C'') cancelled_db =
     (Return (result ''info'' (AlreadyCancelled (JString ''SF-TEKI-3F9A1C''))), cancelled_db)"
  by (rule cancel_cancelled_idempotent
        [of _ _ "sample_ticket\<lparr>status := ''CANCELLED'',
                   cancellation_date := Some ''2025-02-02 09:30:00''\<rparr>"])
     (simp_all add: cancelled_db_def)

text \<open>
  Claim C8. \<open>get_ticket_info\<close> on an id that is not in the store returns status
  \<open>error\<close>. On the id of a ticket that \<open>book_ticket\<close> has just created it returns
  the record that \<open>book_ticket\<close> stored and returned: origin, destination, travel
  date, passenger name and national id are those of the request, while id, price,
  departure time, status and booking date are generated by the tool.
\<close>

theorem get_ticket_info_round_trip:
  "(fmlookup db k = None \<longrightarrow>
      (\<exists>e. get_ticket_info (JString k) db = Return e \<and> res_status e = ''error'')) \<and>
   (book_ticket sm hex now oc dc dt p n db = (r, db') \<and> res_status r = ''success'' \<longrightarrow>
      (\<exists>t. details r = Some t \<and>
           get_ticket_info (JString (ticket_id t)) db' =
             Return ((result ''success'' InfoRetrieved)\<lparr>details := Some t\<rparr>) \<and>
           origin t = oc \<and> destination t = dc \<and> travel_date t = dt \<and>
           passenger_name t = p \<and> national_id t = n \<and>
           (\<exists>orig dst. oc = JString orig \<and> dc = JString dst \<and>
              ticket_id t = generate_ticket_id sm hex orig dst) \<and>
           price_irr t \<in> set ticket_prices \<and>
           departure_time t \<in> set travel_times \<and>
           status t = ''CONFIRMED'' \<and>
           booking_date t = now \<and> cancellation_date t = None))"
proof (intro conjI impI)
  assume "fmlookup db k = None"
  then show "\<exists>e. get_ticket_info (JString k) db = Return e \<and> res_status e = ''error''"
    by (simp add: get_ticket_info_def result_def)
next
  assume a: "book_ticket sm hex now oc dc dt p n db = (r, db') \<and> res_status r = ''success''"
  from book_ticket_success[of sm hex now oc dc dt p n db r db'] a
  obtain orig dst t where b: "oc = JString orig" "dc = JString dst"
    "r = (result ''success'' TicketBooked)\<lparr>details := Some t\<rparr>"
    "db' = fmupd (ticket_id t) t db"
    "ticket_id t = generate_ticket_id sm hex orig dst"
    "origin t = oc" "destination t = dc" "travel_date t = dt"
    "passenger_name t = p" "national_id t = n"
    "departure_time t = travel_times ! (fcard (fmdom db) mod 3)"
    "price_irr t =
       (if str_lower sm dst \<in> set [''kish'', ''qeshm''] then PyFloat 2250000 else PyInt 1500000)"
    "status t = ''CONFIRMED''" "booking_date t = now" "cancellation_date t = None"
    by blast
  have slot: "travel_times ! (fcard (fmdom db) mod 3) \<in> set travel_times"
    by (rule nth_mem) (simp add: travel_times_def)
  have price: "price_irr t \<in> set ticket_prices"
    using b(12) by (simp add: ticket_prices_def)
  have info: "get_ticket_info (JString (ticket_id t)) db' =
      Return ((result ''success'' InfoRetrieved)\<lparr>details := Some t\<rparr>)"
    by (simp add: get_ticket_info_def b(4))
  have d: "details r = Some t" by (simp add: b(3))
  show "\<exists>t. details r = Some t \<and>
           get_ticket_info (JString (ticket_id t)) db' =
             Return ((result ''success'' InfoRetrieved)\<lparr>details := Some t\<rparr>) \<and>
           origin t = oc \<and> destination t = dc \<and> travel_date t = dt \<and>
           passenger_name t = p \<and> national_id t = n \<and>
           (\<exists>orig dst. oc = JString orig \<and> dc = JString dst \<and>
              ticket_id t = generate_ticket_id sm hex orig dst) \<and>
           price_irr t \<in> set ticket_prices \<and>
           departure_time t \<in> set travel_times \<and>
           status t = ''CONFIRMED'' \<and>
           booking_date t = now \<and> cancellation_date t = None"
    using d info b(1,2,5-10,13-15) price slot b(11) by auto
qed

theorem get_ticket_info_round_trip_witness:
  "fmlookup (fmempty :: ticket_db) ''SF-TEKI-3F9A1C'' = None \<and>
   get_ticket_info (JString ''SF-TEKI-3F9A1C'') fmempty =
     Return (result ''error'' (TicketNotFound (JString ''SF-TEKI-3F9A1C''))) \<and>
   book_ticket ascii_str ''3f9a1c0de4b24a6f8d1e2c3b4a5f6071'' ''2025-02-01 10:00:00'' (JString ''Tehran'') (JString ''Kish'')
     (JString ''2025-03-01'') (JString ''Sara Ahmadi'') (JString ''0012345678'') fmempty =
     ((result ''success'' TicketBooked)\<lparr>details := Some sample_ticket\<rparr>, sample_db) \<and>
   get_ticket_info (JString ''SF-TEKI-3F9A1C'') sample_db =
     Return ((result ''success'' InfoRetrieved)\<lparr>details := Some sample_ticket\<rparr>)"
proof -
  have h1: "fmlookup (fmempty :: ticket_db) ''SF-TEKI-3F9A1C'' = None"
    by simp
  have h2: "res_status ((result ''success'' TicketBooked)\<lparr>details := Some sample_ticket\<rparr>)
      = ''success''"
    by (simp add: result_def)
  note rt = get_ticket_info_round_trip
    [of fmempty "''SF-TEKI-3F9A1C''" ascii_str "''3f9a1c0de4b24a6f8d1e2c3b4a5f6071''" "''2025-02-01 10:00:00''"
       "JString ''Tehran''" "JString ''Kish''" "JString ''2025-03-01''"
       "JString ''Sara Ahmadi''" "JString ''0012345678''"
       "(result ''success'' TicketBooked)\<lparr>details := Some sample_ticket\<rparr>" sample_db]
  from rt h1 have "\<exists>e. get_ticket_info (JString ''SF-TEKI-3F9A1C'') fmempty = Return e \<and>
      res_status e = ''error''"
    by blast
  then have e: "get_ticket_info (JString ''SF-TEKI-3F9A1C'') fmempty =
     Return (result ''error'' (TicketNotFound (JString ''SF-TEKI-3F9A1C'')))"
    by (simp add: get_ticket_info_def)
  from rt book_sample h2
  have "\<exists>t. details ((result ''success'' TicketBooked)\<lparr>details := Some sample_ticket\<rparr>) = Some t \<and>
      get_ticket_info (JString (ticket_id t)) sample_db =
        Return ((result ''success'' InfoRetrieved)\<lparr>details := Some t\<rparr>)"
    by blast
  then have i: "get_ticket_info (JString ''SF-TEKI-3F9A1C'') sample_db =
     Return ((result ''success'' InfoRetrieved)\<lparr>details := Some sample_ticket\<rparr>)"
    by (auto simp: result_def sample_ticket_def)
  from h1 e book_sample i show ?thesis by simp
qed

text \<open>
  Claim C9, at three consecutive bookings of which the second is given the ticket
  id of the first. All three succeed. The second replaces the ticket of the first
  in the store, the count stays at one, and the third booking gets the slot of the
  second again: the departure times are 08:00, 14:30, 14:30, not the three slots in
  order.
\<close>

theorem repeated_id_repeats_slot:
  "map res_status (fst (book_all ascii_str three_bookings fmempty)) =
     [''success'', ''success'', ''success''] \<and>
   departure_times (fst (book_all ascii_str three_bookings fmempty)) =
     [''08:00'', ''14:30'', ''14:30''] \<and>
   fcard (fmdom (snd (book_all ascii_str three_bookings fmempty))) = 2"
  by (simp add: three_bookings_def book_ticket_def sample_ticket_id three_ticket_ids
      lower_Kish premium_price travel_times_def Let_def result_def fcard_fempty
      fcard_finsert_if departure_times_def map_filter_simps)

text \<open>
  Claim C10. A successful \<open>cancel_ticket\<close> changes only \<open>status\<close> and
  \<open>cancellation_date\<close> of the ticket it names: the other nine fields keep their
  values, every other ticket is as before, and the store has the same keys and
  the same size.
\<close>

theorem cancel_frame:
  assumes "cancel_ticket now tid db = (Return r, db')" and "res_status r = ''success''"
  shows "\<exists>k t t'. tid = JString k \<and> fmlookup db k = Some t \<and> fmlookup db' k = Some t' \<and>
           t' = t\<lparr>status := ''CANCELLED'', cancellation_date := Some now\<rparr> \<and>
           ticket_id t' = ticket_id t \<and> origin t' = origin t \<and>
           destination t' = destination t \<and> travel_date t' = travel_date t \<and>
           departure_time t' = departure_time t \<and> passenger_name t' = passenger_name t \<and>
           national_id t' = national_id t \<and> price_irr t' = price_irr t \<and>
           booking_date t' = booking_date t \<and>
           (\<forall>k'. k' \<noteq> k \<longrightarrow> fmlookup db' k' = fmlookup db k') \<and>
           fmdom db' = fmdom db \<and> fcard (fmdom db') = fcard (fmdom db)"
proof (cases tid)
  case (JString k)
  show ?thesis
  proof (cases "fmlookup db k")
    case None
    with assms JString show ?thesis by (auto simp: cancel_ticket_def result_def)
  next
    case (Some t)
    then have dom: "finsert k (fmdom db) = fmdom db"
      by (simp add: fmdomI finsert_absorb)
    from assms JString Some show ?thesis
      by (auto simp: cancel_ticket_def Let_def result_def dom split: if_splits)
  qed
qed (use assms in \<open>auto simp: cancel_ticket_def result_def\<close>)

theorem cancel_frame_witness:
  "cancel_ticket ''2025-02-02 09:30:00'' (JString ''SF-TEKI-3F9A1C'') sample_db =
     (Return ((result ''success''
                (TicketCancelled (JString ''SF-TEKI-3F9A1C'') 1575000 (PyFloat 675000)))
              \<lparr>res_ticket_id := Some (JString ''SF-TEKI-3F9A1C''),
               refund_amount_irr := Some 1575000\<rparr>),
      cancelled_db) \<and>
   fmdom cancelled_db = fmdom sample_db \<and>
   fmlookup cancelled_db ''SF-TEKI-3F9A1C'' =
     Some (sample_ticket\<lparr>status := ''CANCELLED'',
             cancellation_date := Some ''2025-02-02 09:30:00''\<rparr>)"
proof -
  have c: "cancel_ticket ''2025-02-02 09:30:00'' (JString ''SF-TEKI-3F9A1C'') sample_db =
     (Return ((result ''success''
                (TicketCancelled (JString ''SF-TEKI-3F9A1C'') 1575000 (PyFloat 675000)))
              \<lparr>res_ticket_id := Some (JString ''SF-TEKI-3F9A1C''),
               refund_amount_irr := Some 1575000\<rparr>),
      cancelled_db)"
    by (simp add: cancel_ticket_def sample_db_def sample_ticket_def cancelled_db_def
        Let_def refund_float rd_G rd_H)
  have s: "res_status ((result ''success''
                (TicketCancelled (JString ''SF-TEKI-3F9A1C'') 1575000 (PyFloat 675000)))
              \<lparr>res_ticket_id := Some (JString ''SF-TEKI-3F9A1C''),
               refund_amount_irr := Some 1575000\<rparr>) = ''success''"
    by (simp add: result_def)
  from cancel_frame[OF c s] have "fmdom cancelled_db = fmdom sample_db"
    by blast
  moreover from cancel_frame[OF c s]
  have "fmlookup cancelled_db ''SF-TEKI-3F9A1C'' =
     Some (sample_ticket\<lparr>status := ''CANCELLED'',
             cancellation_date := Some ''2025-02-02 09:30:00''\<rparr>)"
    by (auto simp: sample_db_def)
  ultimately show ?thesis using c by simp
qed

end
